theory Spec2Isabelle
  imports Complex_Main "HOL-Library.Char_ord" "HOL-Library.Sublist"
begin

chapter \<open>The reference extraction and quality-scoring pipeline of the PDF Reference Extraction Agent\<close>

text \<open>
  The development embeds the classes \<^verbatim>\<open>PDFTextExtractor\<close> and \<^verbatim>\<open>ReferenceParser\<close> of
  \<^verbatim>\<open>src/agents/pdf_reference_extraction_agent.py\<close> and the part of
  \<^verbatim>\<open>PDFReferenceExtractionAgent.extract_references_from_pdf\<close> that follows text extraction.

  Conventions of the embedding:
  \<^item> a Python \<^verbatim>\<open>str\<close> is a \<^typ>\<open>string\<close>; a \<^typ>\<open>char\<close> is read as the code point of the
    same number (U+0000 to U+00FF), and the character predicates below are Python's on that range;
  \<^item> a Python \<^verbatim>\<open>float\<close> is a \<^typ>\<open>real\<close>: the arithmetic is exact, rounding is not modelled;
  \<^item> a method \<^verbatim>\<open>_name\<close> of the source is the constant \<open>name\<close> (an Isabelle name cannot start
    with an underscore);
  \<^item> the functions of the module \<^verbatim>\<open>re\<close> are modelled by a backtracking matcher for the
    fragment of the pattern language that the source uses.
\<close>

section \<open>Characters and strings\<close>

text \<open>\<^verbatim>\<open>str.isspace\<close>, which is also the class \<^verbatim>\<open>\s\<close> of a \<^verbatim>\<open>str\<close> pattern: code points 9 to 13,
  28 to 32, 133 and 160.\<close>

definition is_space :: "char \<Rightarrow> bool" where
  "is_space c = (let n = (of_char c :: nat) in
      (9 \<le> n \<and> n \<le> 13) \<or> (28 \<le> n \<and> n \<le> 32) \<or> n = 133 \<or> n = 160)"

text \<open>The class \<^verbatim>\<open>\d\<close>: the decimal digits \<^verbatim>\<open>0\<close> to \<^verbatim>\<open>9\<close>. \<^verbatim>\<open>str.isdigit\<close> is modelled by the same
  set: the source applies it only to groups that \<^verbatim>\<open>\d\<close> matched.\<close>

definition is_digit :: "char \<Rightarrow> bool" where
  "is_digit c = (let n = (of_char c :: nat) in 48 \<le> n \<and> n \<le> 57)"

text \<open>The characters that \<^verbatim>\<open>str.lower\<close> changes: \<^verbatim>\<open>A\<close> to \<^verbatim>\<open>Z\<close> and the capital letters
  U+00C0 to U+00DE without the multiplication sign U+00D7. Each is mapped to the code point 32
  above it; bit 5 of these code points is clear, so adding 32 sets it.\<close>

definition is_upper :: "char \<Rightarrow> bool" where
  "is_upper c = (let n = (of_char c :: nat) in
      (65 \<le> n \<and> n \<le> 90) \<or> (192 \<le> n \<and> n \<le> 222 \<and> n \<noteq> 215))"

definition lower_char :: "char \<Rightarrow> char" where
  "lower_char c = (if is_upper c
      then (case c of Char b0 b1 b2 b3 b4 b5 b6 b7 \<Rightarrow> Char b0 b1 b2 b3 b4 True b6 b7)
      else c)"

definition lower :: "string \<Rightarrow> string" where
  "lower s = map lower_char s"

text \<open>\<^verbatim>\<open>s.strip(chars)\<close>: the trailing and then the leading characters of the set are removed.\<close>

fun rstrip_by :: "(char \<Rightarrow> bool) \<Rightarrow> string \<Rightarrow> string" where
  "rstrip_by p [] = []"
| "rstrip_by p (c # cs) = (let r = rstrip_by p cs in if r = [] \<and> p c then [] else c # r)"

definition strip_by :: "(char \<Rightarrow> bool) \<Rightarrow> string \<Rightarrow> string" where
  "strip_by p s = rstrip_by p (dropWhile p s)"

definition strip :: "string \<Rightarrow> string" where
  "strip s = strip_by is_space s"

text \<open>\<^verbatim>\<open>s.split(sep)\<close> for a one-character separator keeps the empty fields; \<^verbatim>\<open>s.split()\<close> cuts at
  every white-space character and drops the empty fields.\<close>

fun split_on :: "(char \<Rightarrow> bool) \<Rightarrow> string \<Rightarrow> string list" where
  "split_on p [] = [[]]"
| "split_on p (c # cs) =
     (if p c then [] # split_on p cs
      else (case split_on p cs of [] \<Rightarrow> [[c]] | w # ws \<Rightarrow> (c # w) # ws))"

definition split :: "string \<Rightarrow> string list" where
  "split s = filter (\<lambda>w. w \<noteq> []) (split_on is_space s)"

definition split_lines :: "string \<Rightarrow> string list" where
  "split_lines s = split_on (\<lambda>c. c = CHR 0x0A) s"

text \<open>\<^verbatim>\<open>sep.join(xs)\<close>.\<close>

fun join :: "string \<Rightarrow> string list \<Rightarrow> string" where
  "join sep [] = []"
| "join sep [x] = x"
| "join sep (x # xs) = x @ sep @ join sep xs"

text \<open>\<^verbatim>\<open>p in s\<close> for strings: \<open>p\<close> occurs in \<open>s\<close> as a contiguous block.\<close>

fun contains :: "string \<Rightarrow> string \<Rightarrow> bool" where
  "contains [] p = (p = [])"
| "contains (c # cs) p = (prefix p (c # cs) \<or> contains cs p)"

text \<open>\<^verbatim>\<open>s.isdigit()\<close> and \<^verbatim>\<open>int(s)\<close> on a string of decimal digits.\<close>

definition isdigit :: "string \<Rightarrow> bool" where
  "isdigit s = (s \<noteq> [] \<and> list_all is_digit s)"

definition int_of_digits :: "string \<Rightarrow> int" where
  "int_of_digits s = foldl (\<lambda>a c. 10 * a + (int (of_char c) - 48)) 0 s"

section \<open>The pattern language of the module re\<close>

text \<open>
  Only the constructs that occur in the patterns of the source are modelled: character classes
  (a literal character is a class of one item), concatenation, alternation, the greedy and the
  lazy star, capture groups, positive lookahead, and the anchors \<^verbatim>\<open>^\<close> and \<^verbatim>\<open>$\<close>. The other
  repetitions are written with these: \<^verbatim>\<open>r+\<close> is \<open>r\<close> followed by \<open>r*\<close>, \<^verbatim>\<open>r?\<close> is the alternative
  of \<open>r\<close> and the empty pattern, \<^verbatim>\<open>r{n}\<close> is \<open>n\<close> copies, \<^verbatim>\<open>r{1,n}\<close> is \<open>r\<close> followed by up
  to \<open>n - 1\<close> optional copies. A non-capturing group \<^verbatim>\<open>(?:r)\<close> is \<open>r\<close> itself.
\<close>

datatype citem = CChar char | CRange char char | CDigit | CSpace

datatype re =
    Cls "citem list"
  | NCls "citem list"
  | Eps
  | Seq re re
  | Alt re re
  | Star re
  | LStar re
  | Grp nat re
  | Ahead re
  | Bol
  | Eol

record flags =
  ignorecase :: bool
  multiline :: bool

definition no_flags :: flags where
  "no_flags = \<lparr>ignorecase = False, multiline = False\<rparr>"

definition IGNORECASE :: flags where
  "IGNORECASE = \<lparr>ignorecase = True, multiline = False\<rparr>"

definition MULTILINE :: flags where
  "MULTILINE = \<lparr>ignorecase = False, multiline = True\<rparr>"

text \<open>One item of a class against one character. Under \<^verbatim>\<open>IGNORECASE\<close> the lower-cased
  character is compared with the lower-cased members of the class.\<close>

fun item_match :: "bool \<Rightarrow> citem \<Rightarrow> char \<Rightarrow> bool" where
  "item_match ic (CChar x) c = (if ic then lower_char c = lower_char x else c = x)"
| "item_match ic (CRange a b) c =
     (if ic
      then list_ex (\<lambda>n. lower_char (char_of n) = lower_char c) [of_char a ..< Suc (of_char b)]
      else (of_char a :: nat) \<le> of_char c \<and> (of_char c :: nat) \<le> of_char b)"
| "item_match ic CDigit c = is_digit c"
| "item_match ic CSpace c = is_space c"

definition cls_match :: "flags \<Rightarrow> citem list \<Rightarrow> char \<Rightarrow> bool" where
  "cls_match f items c = list_ex (\<lambda>i. item_match (ignorecase f) i c) items"

text \<open>
  A matcher state is the character before the current position (\<open>None\<close> at the start of the
  text), the text from the current position on, and the groups captured so far (the latest
  capture of a group first). \<open>ms f r st\<close> lists the states in which a match of \<open>r\<close> that
  starts in \<open>st\<close> can end, in the order in which a backtracking matcher tries them; the head of
  the list is the match that \<^verbatim>\<open>re\<close> reports. An iteration of a star that consumes no character
  is not repeated.
\<close>

type_synonym captures = "(nat \<times> string) list"
type_synonym mstate = "char option \<times> string \<times> captures"

fun ms :: "flags \<Rightarrow> re \<Rightarrow> mstate \<Rightarrow> mstate list" where
  "ms f (Cls items) (prev, s, caps) =
     (case s of [] \<Rightarrow> []
      | c # cs \<Rightarrow> if cls_match f items c then [(Some c, cs, caps)] else [])"
| "ms f (NCls items) (prev, s, caps) =
     (case s of [] \<Rightarrow> []
      | c # cs \<Rightarrow> if cls_match f items c then [] else [(Some c, cs, caps)])"
| "ms f Eps st = [st]"
| "ms f (Seq a b) st = concat (map (\<lambda>st'. ms f b st') (ms f a st))"
| "ms f (Alt a b) st = ms f a st @ ms f b st"
| "ms f (Star r) st =
     concat (map (\<lambda>st'. ms f (Star r) st')
        (filter (\<lambda>st'. length (fst (snd st')) < length (fst (snd st))) (ms f r st))) @ [st]"
| "ms f (LStar r) st =
     st # concat (map (\<lambda>st'. ms f (LStar r) st')
        (filter (\<lambda>st'. length (fst (snd st')) < length (fst (snd st))) (ms f r st)))"
| "ms f (Grp n r) (prev, s, caps) =
     map (\<lambda>(prev', s', caps'). (prev', s', (n, take (length s - length s') s) # caps'))
       (ms f r (prev, s, caps))"
| "ms f (Ahead r) (prev, s, caps) =
     (case ms f r (prev, s, caps) of [] \<Rightarrow> [] | (prev', s', caps') # _ \<Rightarrow> [(prev, s, caps')])"
| "ms f Bol (prev, s, caps) =
     (if prev = None \<or> (multiline f \<and> prev = Some (CHR 0x0A)) then [(prev, s, caps)] else [])"
| "ms f Eol (prev, s, caps) =
     (if s = [] \<or> (multiline f \<and> hd s = CHR 0x0A) \<or> (\<not> multiline f \<and> s = [CHR 0x0A])
      then [(prev, s, caps)] else [])"

text \<open>The equations of the two stars unfold without end on an open term: they are used by
  name.\<close>

declare ms.simps(6,7) [simp del]

text \<open>The derived repetitions and some abbreviations for writing patterns.\<close>

definition Plus :: "re \<Rightarrow> re" where
  "Plus r = Seq r (Star r)"

definition Opt :: "re \<Rightarrow> re" where
  "Opt r = Alt r Eps"

fun Times :: "nat \<Rightarrow> re \<Rightarrow> re" where
  "Times 0 r = Eps"
| "Times (Suc 0) r = r"
| "Times (Suc (Suc n)) r = Seq r (Times (Suc n) r)"

fun UpTo :: "nat \<Rightarrow> re \<Rightarrow> re" where
  "UpTo 0 r = Eps"
| "UpTo (Suc n) r = Alt (Seq r (UpTo n r)) Eps"

fun seqs :: "re list \<Rightarrow> re" where
  "seqs [] = Eps"
| "seqs [r] = r"
| "seqs (r # rs) = Seq r (seqs rs)"

fun alts :: "re list \<Rightarrow> re" where
  "alts [] = NCls [CRange (CHR 0x00) (CHR 0xFF)]"
| "alts [r] = r"
| "alts (r # rs) = Alt r (alts rs)"

definition ch :: "char \<Rightarrow> re" where
  "ch c = Cls [CChar c]"

definition lit :: "string \<Rightarrow> re" where
  "lit s = seqs (map ch s)"

definition upper_AZ :: re where
  "upper_AZ = Cls [CRange CHR ''A'' CHR ''Z'']"

definition lower_az :: re where
  "lower_az = Cls [CRange CHR ''a'' CHR ''z'']"

definition space :: re where
  "space = Cls [CSpace]"

definition digit :: re where
  "digit = Cls [CDigit]"

definition newline :: re where
  "newline = ch (CHR 0x0A)"

subsection \<open>search, match, finditer, split and sub\<close>

text \<open>
  \<^verbatim>\<open>re.search\<close> tries the start positions from left to right; \<open>skipped\<close> holds the
  characters passed so far, the last one first. The result is the text before the match, the
  captured groups, the character before the end of the match and the text after the match.
\<close>

type_synonym found = "string \<times> captures \<times> char option \<times> string"

fun re_search_from :: "flags \<Rightarrow> re \<Rightarrow> char option \<Rightarrow> string \<Rightarrow> string \<Rightarrow> found option" where
  "re_search_from f r prev skipped [] =
     (case ms f r (prev, [], []) of [] \<Rightarrow> None
      | (prev', s', caps) # _ \<Rightarrow> Some (rev skipped, caps, prev', s'))"
| "re_search_from f r prev skipped (c # cs) =
     (case ms f r (prev, c # cs, []) of
        (prev', s', caps) # _ \<Rightarrow> Some (rev skipped, caps, prev', s')
      | [] \<Rightarrow> re_search_from f r (Some c) (c # skipped) cs)"

definition re_search :: "flags \<Rightarrow> re \<Rightarrow> string \<Rightarrow> found option" where
  "re_search f r s = re_search_from f r None [] s"

text \<open>\<^verbatim>\<open>re.match\<close> tries the start of the text only.\<close>

definition re_match :: "flags \<Rightarrow> re \<Rightarrow> string \<Rightarrow> found option" where
  "re_match f r s =
     (case ms f r (None, s, []) of [] \<Rightarrow> None
      | (prev', s', caps) # _ \<Rightarrow> Some ([], caps, prev', s'))"

text \<open>\<^verbatim>\<open>m.group(n)\<close> and \<^verbatim>\<open>m.groups()\<close> for a pattern with \<open>k\<close> groups; a group that took no
  part in the match is \<open>None\<close>.\<close>

definition group :: "captures \<Rightarrow> nat \<Rightarrow> string option" where
  "group caps n = map_of caps n"

definition groups :: "nat \<Rightarrow> captures \<Rightarrow> string option list" where
  "groups k caps = map (group caps) [1 ..< Suc k]"

text \<open>
  The successive matches from left to right, each with the text between the end of the
  previous match and its start, and the text after the last match; \<open>acc\<close> holds the matches
  found so far, the last one first. No pattern that the source hands to \<^verbatim>\<open>finditer\<close>,
  \<^verbatim>\<open>split\<close> or \<^verbatim>\<open>sub\<close> matches the empty string; the scan stops at a match that leaves the
  whole text.
\<close>

function re_scan_from ::
  "flags \<Rightarrow> re \<Rightarrow> char option \<Rightarrow> (string \<times> captures) list \<Rightarrow> string
     \<Rightarrow> (string \<times> captures) list \<times> string" where
  "re_scan_from f r prev acc s =
     (case re_search_from f r prev [] s of
        None \<Rightarrow> (rev acc, s)
      | Some (pre, caps, prev', s') \<Rightarrow>
          if length s' < length s
          then re_scan_from f r prev' ((pre, caps) # acc) s'
          else (rev ((pre, caps) # acc), s'))"
  by pat_completeness auto
termination
  by (relation "measure (\<lambda>(f, r, prev, acc, s). length s)") auto

declare re_scan_from.simps [simp del]

definition re_scan :: "flags \<Rightarrow> re \<Rightarrow> string \<Rightarrow> (string \<times> captures) list \<times> string" where
  "re_scan f r s = re_scan_from f r None [] s"

text \<open>\<^verbatim>\<open>re.finditer\<close>: the captures of the successive matches.\<close>

definition re_finditer :: "flags \<Rightarrow> re \<Rightarrow> string \<Rightarrow> captures list" where
  "re_finditer f r s = map snd (fst (re_scan f r s))"

text \<open>\<^verbatim>\<open>re.split\<close> for a pattern with \<open>k\<close> groups: the text between the matches, with the
  groups of each match put in between.\<close>

definition re_split :: "flags \<Rightarrow> nat \<Rightarrow> re \<Rightarrow> string \<Rightarrow> string option list" where
  "re_split f k r s =
     (case re_scan f r s of (found, rest) \<Rightarrow>
        concat (map (\<lambda>(pre, caps). Some pre # groups k caps) found) @ [Some rest])"

text \<open>\<^verbatim>\<open>re.sub\<close> with a constant replacement.\<close>

definition re_sub :: "flags \<Rightarrow> re \<Rightarrow> string \<Rightarrow> string \<Rightarrow> string" where
  "re_sub f r repl s =
     (case re_scan f r s of (found, rest) \<Rightarrow>
        concat (map (\<lambda>(pre, caps). pre @ repl) found) @ rest)"


text \<open>
  Two devices for running the matcher on a closed text without copying the text into every
  state: \<open>rest_at t i\<close> is the text \<open>t\<close> from position \<open>i\<close> on, and \<open>literal\<close> marks a
  string that is to be written out character by character.
\<close>

definition rest_at :: "string \<Rightarrow> nat \<Rightarrow> string" where
  "rest_at t i = drop i t"

definition literal :: "string \<Rightarrow> string" where
  "literal s = s"

section \<open>The data model\<close>

text \<open>The dataclass \<^verbatim>\<open>ExtractedReference\<close> with its default values.\<close>

record extracted_reference =
  reference_number :: "int option"
  full_text :: string
  authors :: "string list"
  title :: string
  year :: "int option"
  venue :: string
  volume :: string
  issue :: string
  pages :: string
  doi :: string
  url :: string
  isbn :: string
  reference_type :: string
  citation_style :: string
  confidence_score :: real
  extraction_notes :: string

definition ExtractedReference :: extracted_reference where
  "ExtractedReference = \<lparr>reference_number = None, full_text = [], authors = [], title = [],
     year = None, venue = [], volume = [], issue = [], pages = [], doi = [], url = [], isbn = [],
     reference_type = [], citation_style = [], confidence_score = 0, extraction_notes = []\<rparr>"

text \<open>The dictionary that an extraction method returns. The keys that the source reads with
  \<^verbatim>\<open>get\<close> and a default are optional fields; the per-page list and the error text are left out; the key \<^verbatim>\<open>method\<close> is the field \<open>method_name\<close>.\<close>

record extraction_result =
  result_text :: string
  method_name :: "string option"
  success :: "bool option"
  quality_score :: "real option"

datatype py_error = KeyError | ValueError string

section \<open>PDFTextExtractor\<close>

definition academic_indicators :: "string list" where
  "academic_indicators =
     [''abstract'', ''introduction'', ''methodology'', ''results'', ''conclusion'',
      ''references'', ''bibliography'', ''doi:'', ''http://'', ''https://'',
      ''journal'', ''conference'', ''proceedings'', ''volume'', ''issue'']"

definition calculate_text_quality :: "string \<Rightarrow> real" where
  "calculate_text_quality t =
     (if t = [] then 0
      else let char_count = length t;
               word_count = length (split t);
               indicator_count =
                 length (filter (\<lambda>indicator. contains (lower t) (lower indicator)) academic_indicators)
           in min 1 (real char_count / 10000 * 0.3 + real word_count / 2000 * 0.3
                     + real indicator_count / real (length academic_indicators) * 0.4))"

text \<open>
  The three extraction methods. What the PDF libraries return is the input of the model: for
  each method the texts of the pages (an empty text where the library returns \<^verbatim>\<open>None\<close>), or
  \<open>None\<close> when the library raises.
\<close>

definition extract_with_pdfplumber :: "string list \<Rightarrow> extraction_result" where
  "extract_with_pdfplumber page_texts =
     (let full_text = join [CHR 0x0A] (filter (\<lambda>page_text. page_text \<noteq> []) page_texts)
      in \<lparr>result_text = full_text, method_name = Some ''pdfplumber'', success = Some True,
          quality_score = Some (calculate_text_quality full_text)\<rparr>)"

definition extract_with_pypdf2 :: "string list \<Rightarrow> extraction_result" where
  "extract_with_pypdf2 page_texts =
     (let full_text = join [CHR 0x0A] (filter (\<lambda>page_text. page_text \<noteq> []) page_texts)
      in \<lparr>result_text = full_text, method_name = Some ''pypdf2'', success = Some True,
          quality_score = Some (calculate_text_quality full_text)\<rparr>)"

definition extract_with_ocr :: "string list option \<Rightarrow> extraction_result" where
  "extract_with_ocr images =
     (case images of
        Some page_texts \<Rightarrow>
          (let full_text = join [CHR 0x0A] (filter (\<lambda>page_text. strip page_text \<noteq> []) page_texts)
           in \<lparr>result_text = full_text, method_name = Some ''ocr'', success = Some True,
               quality_score = Some (calculate_text_quality full_text * 0.8)\<rparr>)
      | None \<Rightarrow> \<lparr>result_text = [], method_name = Some ''ocr'', success = Some False,
                  quality_score = Some 0\<rparr>)"

text \<open>The dictionary that \<^verbatim>\<open>extract_text_from_pdf\<close> stores for a method that raised.\<close>

definition failed_result :: extraction_result where
  "failed_result = \<lparr>result_text = [], method_name = None, success = Some False, quality_score = None\<rparr>"

definition get_success :: "extraction_result \<Rightarrow> bool" where
  "get_success r = (case success r of Some b \<Rightarrow> b | None \<Rightarrow> False)"

definition get_quality_score :: "extraction_result \<Rightarrow> real" where
  "get_quality_score r = (case quality_score r of Some q \<Rightarrow> q | None \<Rightarrow> 0)"

definition initial_best_result :: extraction_result where
  "initial_best_result = \<lparr>result_text = [], method_name = Some ''none'', success = None,
     quality_score = Some 0\<rparr>"

text \<open>The loop of \<^verbatim>\<open>_select_best_extraction\<close> over the results in the order of insertion.
  \<^verbatim>\<open>best_result["quality_score"]\<close> raises \<^verbatim>\<open>KeyError\<close> when the key is missing.\<close>

fun select_loop ::
  "extraction_result \<Rightarrow> (string \<times> extraction_result) list \<Rightarrow> py_error + extraction_result" where
  "select_loop best_result [] = Inr best_result"
| "select_loop best_result ((m, result) # rest) =
     (if get_success result
      then (case quality_score best_result of
              None \<Rightarrow> Inl KeyError
            | Some best_quality \<Rightarrow>
                if get_quality_score result > best_quality
                then select_loop result rest
                else select_loop best_result rest)
      else select_loop best_result rest)"

definition select_best_extraction ::
  "(string \<times> extraction_result) list \<Rightarrow> py_error + extraction_result" where
  "select_best_extraction extraction_results = select_loop initial_best_result extraction_results"

text \<open>A PDF, as far as the extractor sees it: what each of the three libraries returns.\<close>

record pdf =
  pdfplumber_pages :: "string list option"
  pypdf2_pages :: "string list option"
  ocr_pages :: "string list option"

definition extraction_results :: "pdf \<Rightarrow> (string \<times> extraction_result) list" where
  "extraction_results d =
     [(''pdfplumber'', case pdfplumber_pages d of Some ps \<Rightarrow> extract_with_pdfplumber ps
                       | None \<Rightarrow> failed_result),
      (''pypdf2'', case pypdf2_pages d of Some ps \<Rightarrow> extract_with_pypdf2 ps
                   | None \<Rightarrow> failed_result),
      (''ocr'', extract_with_ocr (ocr_pages d))]"

text \<open>\<^verbatim>\<open>extract_text_from_pdf\<close>: the text, the method used and the quality of the best result.\<close>

definition extract_text_from_pdf :: "pdf \<Rightarrow> py_error + (string \<times> string \<times> real)" where
  "extract_text_from_pdf d =
     (case select_best_extraction (extraction_results d) of
        Inl e \<Rightarrow> Inl e
      | Inr best_result \<Rightarrow>
          Inr (result_text best_result,
               (case method_name best_result of Some m \<Rightarrow> m | None \<Rightarrow> ''unknown''),
               get_quality_score best_result))"


section \<open>ReferenceParser: the patterns\<close>

text \<open>Parts that several patterns share: \<^verbatim>\<open>[A-Z][a-z]+\<close>, the initials
  \<^verbatim>\<open>(?:,\s*[A-Z]\.(?:\s*[A-Z]\.)?)*\<close>, \<^verbatim>\<open>[A-Z][a-z]+,\s*[A-Z][a-z]+\<close>, the IEEE author list
  \<^verbatim>\<open>[A-Z]\.\s*[A-Z][a-z]+(?:,\s*[A-Z]\.\s*[A-Z][a-z]+)*\<close>, \<^verbatim>\<open>[\d-]+\<close> and
  \<^verbatim>\<open>(?:,\s*no\.\s*(\d+))?\<close> with the number of its group.\<close>

definition capitalized :: re where
  "capitalized = Seq upper_AZ (Plus lower_az)"

definition initials :: re where
  "initials = Star (seqs [ch CHR '','', Star space, upper_AZ, ch CHR ''.'',
                          Opt (seqs [Star space, upper_AZ, ch CHR ''.''])])"

definition last_first :: re where
  "last_first = seqs [capitalized, ch CHR '','', Star space, capitalized]"

definition ieee_authors :: re where
  "ieee_authors = seqs [upper_AZ, ch CHR ''.'', Star space, capitalized,
     Star (seqs [ch CHR '','', Star space, upper_AZ, ch CHR ''.'', Star space, capitalized])]"

definition digits_or_hyphens :: re where
  "digits_or_hyphens = Plus (Cls [CDigit, CChar CHR ''-''])"

definition opt_no :: "nat \<Rightarrow> re" where
  "opt_no n = Opt (seqs [ch CHR '','', Star space, lit ''no.'', Star space, Grp n (Plus digit)])"

text \<open>\<^verbatim>\<open>([A-Z][a-z]+(?:,\s*[A-Z]\.(?:\s*[A-Z]\.)?)*)\s*\((\d{4})\)\.\s*([^.]+)\.\s*([^,]+)(?:,\s*(\d+)(?:\((\d+)\))?)(?:,\s*([\d-]+))?\<close>\<close>

definition apa_1 :: re where
  "apa_1 = seqs [Grp 1 (Seq capitalized initials), Star space,
     ch CHR ''('', Grp 2 (Times 4 digit), ch CHR '')'', ch CHR ''.'', Star space,
     Grp 3 (Plus (NCls [CChar CHR ''.''])), ch CHR ''.'', Star space,
     Grp 4 (Plus (NCls [CChar CHR '',''])),
     seqs [ch CHR '','', Star space, Grp 5 (Plus digit),
           Opt (seqs [ch CHR ''('', Grp 6 (Plus digit), ch CHR '')''])],
     Opt (seqs [ch CHR '','', Star space, Grp 7 digits_or_hyphens])]"

text \<open>\<^verbatim>\<open>([A-Z][a-z]+(?:,\s*[A-Z]\.(?:\s*[A-Z]\.)?)*(?:,?\s*&\s*[A-Z][a-z]+(?:,\s*[A-Z]\.(?:\s*[A-Z]\.)?)*)*)\s*\((\d{4})\)\.\s*([^.]+)\.\s*([^.]+)\.\<close>\<close>

definition apa_2 :: re where
  "apa_2 = seqs [Grp 1 (seqs [capitalized, initials,
        Star (seqs [Opt (ch CHR '',''), Star space, ch CHR ''&'', Star space, capitalized, initials])]),
     Star space, ch CHR ''('', Grp 2 (Times 4 digit), ch CHR '')'', ch CHR ''.'', Star space,
     Grp 3 (Plus (NCls [CChar CHR ''.''])), ch CHR ''.'', Star space,
     Grp 4 (Plus (NCls [CChar CHR ''.''])), ch CHR ''.'']"

text \<open>\<^verbatim>\<open>([A-Z][a-z]+,\s*[A-Z][a-z]+)\.\s*"([^"]+)"\.\s*([^,]+),\s*vol\.\s*(\d+)(?:,\s*no\.\s*(\d+))?,\s*(\d{4}),\s*pp\.\s*([\d-]+)\<close>\<close>

definition mla_1 :: re where
  "mla_1 = seqs [Grp 1 last_first, ch CHR ''.'', Star space,
     ch CHR 0x22, Grp 2 (Plus (NCls [CChar (CHR 0x22)])), ch CHR 0x22, ch CHR ''.'', Star space,
     Grp 3 (Plus (NCls [CChar CHR '',''])), ch CHR '','', Star space,
     lit ''vol.'', Star space, Grp 4 (Plus digit), opt_no 5,
     ch CHR '','', Star space, Grp 6 (Times 4 digit),
     ch CHR '','', Star space, lit ''pp.'', Star space, Grp 7 digits_or_hyphens]"

text \<open>\<^verbatim>\<open>([A-Z][a-z]+,\s*[A-Z][a-z]+)\.\s*([^.]+)\.\s*([^,]+),\s*(\d{4})\.\<close>\<close>

definition mla_2 :: re where
  "mla_2 = seqs [Grp 1 last_first, ch CHR ''.'', Star space,
     Grp 2 (Plus (NCls [CChar CHR ''.''])), ch CHR ''.'', Star space,
     Grp 3 (Plus (NCls [CChar CHR '',''])), ch CHR '','', Star space,
     Grp 4 (Times 4 digit), ch CHR ''.'']"

text \<open>\<^verbatim>\<open>([A-Z][a-z]+,\s*[A-Z][a-z]+(?:\s+[A-Z][a-z]+)*)\.\s*"([^"]+)"\.\s*([^0-9]+)\s*(\d+)(?:,\s*no\.\s*(\d+))?\s*\((\d{4})\):\s*([\d-]+)\<close>\<close>

definition chicago_1 :: re where
  "chicago_1 = seqs [Grp 1 (Seq last_first (Star (Seq (Plus space) capitalized))),
     ch CHR ''.'', Star space,
     ch CHR 0x22, Grp 2 (Plus (NCls [CChar (CHR 0x22)])), ch CHR 0x22, ch CHR ''.'', Star space,
     Grp 3 (Plus (NCls [CRange CHR ''0'' CHR ''9''])), Star space, Grp 4 (Plus digit), opt_no 5,
     Star space, ch CHR ''('', Grp 6 (Times 4 digit), ch CHR '')'', ch CHR '':'', Star space,
     Grp 7 digits_or_hyphens]"

text \<open>\<^verbatim>\<open>([A-Z][a-z]+,\s*[A-Z][a-z]+(?:\s+[A-Z][a-z]+)*)\.\s*([^.]+)\.\s*[^:]+:\s*([^,]+),\s*(\d{4})\.\<close>\<close>

definition chicago_2 :: re where
  "chicago_2 = seqs [Grp 1 (Seq last_first (Star (Seq (Plus space) capitalized))),
     ch CHR ''.'', Star space,
     Grp 2 (Plus (NCls [CChar CHR ''.''])), ch CHR ''.'', Star space,
     Plus (NCls [CChar CHR '':'']), ch CHR '':'', Star space,
     Grp 3 (Plus (NCls [CChar CHR '',''])), ch CHR '','', Star space,
     Grp 4 (Times 4 digit), ch CHR ''.'']"

text \<open>\<^verbatim>\<open>\[(\d+)\]\s*([A-Z]\.\s*[A-Z][a-z]+(?:,\s*[A-Z]\.\s*[A-Z][a-z]+)*),\s*"([^"]+)",\s*([^,]+),\s*vol\.\s*(\d+)(?:,\s*no\.\s*(\d+))?,\s*pp\.\s*([\d-]+),\s*(\d{4})\<close>\<close>

definition ieee_1 :: re where
  "ieee_1 = seqs [ch CHR ''['', Grp 1 (Plus digit), ch CHR '']'', Star space,
     Grp 2 ieee_authors, ch CHR '','', Star space,
     ch CHR 0x22, Grp 3 (Plus (NCls [CChar (CHR 0x22)])), ch CHR 0x22, ch CHR '','', Star space,
     Grp 4 (Plus (NCls [CChar CHR '',''])), ch CHR '','', Star space,
     lit ''vol.'', Star space, Grp 5 (Plus digit), opt_no 6,
     ch CHR '','', Star space, lit ''pp.'', Star space, Grp 7 digits_or_hyphens,
     ch CHR '','', Star space, Grp 8 (Times 4 digit)]"

text \<open>\<^verbatim>\<open>\[(\d+)\]\s*([A-Z]\.\s*[A-Z][a-z]+(?:,\s*[A-Z]\.\s*[A-Z][a-z]+)*),\s*([^.]+)\.\s*([^,]+),\s*(\d{4})\.\<close>\<close>

definition ieee_2 :: re where
  "ieee_2 = seqs [ch CHR ''['', Grp 1 (Plus digit), ch CHR '']'', Star space,
     Grp 2 ieee_authors, ch CHR '','', Star space,
     Grp 3 (Plus (NCls [CChar CHR ''.''])), ch CHR ''.'', Star space,
     Grp 4 (Plus (NCls [CChar CHR '',''])), ch CHR '','', Star space,
     Grp 5 (Times 4 digit), ch CHR ''.'']"

text \<open>\<^verbatim>\<open>_initialize_citation_patterns\<close>: a dictionary, read in the order of insertion.\<close>

definition citation_patterns :: "(string \<times> re list) list" where
  "citation_patterns =
     [(''apa'', [apa_1, apa_2]),
      (''mla'', [mla_1, mla_2]),
      (''chicago'', [chicago_1, chicago_2]),
      (''ieee'', [ieee_1, ieee_2])]"

text \<open>The number of groups of a pattern: the length of \<^verbatim>\<open>match.groups()\<close>.\<close>

fun ngroups :: "re \<Rightarrow> nat" where
  "ngroups (Seq a b) = max (ngroups a) (ngroups b)"
| "ngroups (Alt a b) = max (ngroups a) (ngroups b)"
| "ngroups (Star r) = ngroups r"
| "ngroups (LStar r) = ngroups r"
| "ngroups (Grp n r) = max n (ngroups r)"
| "ngroups (Ahead r) = ngroups r"
| "ngroups _ = 0"

text \<open>The patterns of \<^verbatim>\<open>_extract_additional_metadata\<close>:
  \<^verbatim>\<open>(?:doi:|DOI:)\s*(10\.\d+/[^\s]+)\<close>, \<^verbatim>\<open>(https?://[^\s]+)\<close>,
  \<^verbatim>\<open>(?:ISBN:?\s*)((?:\d{3}-)?\d{1,5}-\d{1,7}-\d{1,7}-[\dX])\<close>,
  \<^verbatim>\<open>(?:vol\.?\s*|volume\s*)(\d+)\<close>, \<^verbatim>\<open>(?:no\.?\s*|issue\s*|number\s*)(\d+)\<close> and
  \<^verbatim>\<open>(?:pp?\.?\s*|pages?\s*)([\d-]+)\<close>.\<close>

definition doi_pattern :: re where
  "doi_pattern = seqs [Alt (lit ''doi:'') (lit ''DOI:''), Star space,
     Grp 1 (seqs [lit ''10.'', Plus digit, ch CHR ''/'', Plus (NCls [CSpace])])]"

definition url_pattern :: re where
  "url_pattern = Grp 1 (seqs [lit ''http'', Opt (ch CHR ''s''), lit ''://'', Plus (NCls [CSpace])])"

definition isbn_pattern :: re where
  "isbn_pattern = seqs [seqs [lit ''ISBN'', Opt (ch CHR '':''), Star space],
     Grp 1 (seqs [Opt (seqs [Times 3 digit, ch CHR ''-'']),
                  digit, UpTo 4 digit, ch CHR ''-'', digit, UpTo 6 digit, ch CHR ''-'',
                  digit, UpTo 6 digit, ch CHR ''-'', Cls [CDigit, CChar CHR ''X'']])]"

definition volume_pattern :: re where
  "volume_pattern = seqs [Alt (seqs [lit ''vol'', Opt (ch CHR ''.''), Star space])
                              (seqs [lit ''volume'', Star space]),
     Grp 1 (Plus digit)]"

definition issue_pattern :: re where
  "issue_pattern = seqs [alts [seqs [lit ''no'', Opt (ch CHR ''.''), Star space],
                               seqs [lit ''issue'', Star space],
                               seqs [lit ''number'', Star space]],
     Grp 1 (Plus digit)]"

definition pages_pattern :: re where
  "pages_pattern = seqs [Alt (seqs [ch CHR ''p'', Opt (ch CHR ''p''), Opt (ch CHR ''.''), Star space])
                             (seqs [lit ''page'', Opt (ch CHR ''s''), Star space]),
     Grp 1 digits_or_hyphens]"

text \<open>The patterns of \<^verbatim>\<open>_find_references_section\<close>; each starts with \<^verbatim>\<open>(?i)\<close> and is searched
  under \<open>IGNORECASE\<close>: \<^verbatim>\<open>\n\s*references\s*\n\<close>, \<^verbatim>\<open>\n\s*bibliography\s*\n\<close>,
  \<^verbatim>\<open>\n\s*works\s+cited\s*\n\<close>, \<^verbatim>\<open>\n\s*literature\s+cited\s*\n\<close>, \<^verbatim>\<open>\n\s*citations\s*\n\<close>, and
  for the end of the section \<^verbatim>\<open>\n\s*appendix\<close>, \<^verbatim>\<open>\n\s*acknowledgments?\<close>,
  \<^verbatim>\<open>\n\s*author\s+information\<close>, \<^verbatim>\<open>\n\s*about\s+the\s+authors?\<close>.\<close>

definition section_patterns :: "re list" where
  "section_patterns =
     [seqs [newline, Star space, lit ''references'', Star space, newline],
      seqs [newline, Star space, lit ''bibliography'', Star space, newline],
      seqs [newline, Star space, lit ''works'', Plus space, lit ''cited'', Star space, newline],
      seqs [newline, Star space, lit ''literature'', Plus space, lit ''cited'', Star space, newline],
      seqs [newline, Star space, lit ''citations'', Star space, newline]]"

definition end_patterns :: "re list" where
  "end_patterns =
     [seqs [newline, Star space, lit ''appendix''],
      seqs [newline, Star space, lit ''acknowledgment'', Opt (ch CHR ''s'')],
      seqs [newline, Star space, lit ''author'', Plus space, lit ''information''],
      seqs [newline, Star space, lit ''about'', Plus space, lit ''the'', Plus space,
            lit ''author'', Opt (ch CHR ''s'')]]"

text \<open>\<^verbatim>\<open>\[(\d+)\]\<close> of \<^verbatim>\<open>_split_into_references\<close>.\<close>

definition numbered_pattern :: re where
  "numbered_pattern = seqs [ch CHR ''['', Grp 1 (Plus digit), ch CHR '']'']"

text \<open>The patterns of \<^verbatim>\<open>_is_reference_start\<close>: \<^verbatim>\<open>^\[\d+\]\<close>, \<^verbatim>\<open>^\d+\.\<close>,
  \<^verbatim>\<open>^[A-Z][a-z]+,\s*[A-Z]\<close> and \<^verbatim>\<open>^[A-Z][a-z]+,\s*[A-Z][a-z]+\<close>.\<close>

definition reference_start_patterns :: "re list" where
  "reference_start_patterns =
     [seqs [Bol, ch CHR ''['', Plus digit, ch CHR '']''],
      seqs [Bol, Plus digit, ch CHR ''.''],
      seqs [Bol, capitalized, ch CHR '','', Star space, upper_AZ],
      seqs [Bol, capitalized, ch CHR '','', Star space, capitalized]]"

text \<open>\<^verbatim>\<open>\[(\d+)\]\s*([^[\n]+(?:\n[^[\n]+)*?)(?=\[\d+\]|\n\s*\n|$)\<close> of
  \<^verbatim>\<open>_find_numbered_references\<close>, used under \<open>MULTILINE\<close>.\<close>

definition not_bracket_or_newline :: re where
  "not_bracket_or_newline = NCls [CChar CHR ''['', CChar (CHR 0x0A)]"

definition numbered_reference_pattern :: re where
  "numbered_reference_pattern = seqs [ch CHR ''['', Grp 1 (Plus digit), ch CHR '']'', Star space,
     Grp 2 (Seq (Plus not_bracket_or_newline)
                (LStar (Seq newline (Plus not_bracket_or_newline)))),
     Ahead (alts [seqs [ch CHR ''['', Plus digit, ch CHR '']''],
                  seqs [newline, Star space, newline],
                  Eol])]"


section \<open>ReferenceParser: the methods\<close>

text \<open>A group that the source reads as a string; the groups read this way are outside every
  optional part of their pattern.\<close>

definition group_text :: "string option \<Rightarrow> string" where
  "group_text g = (case g of Some s \<Rightarrow> s | None \<Rightarrow> [])"

text \<open>A group inside a formatted string: \<^verbatim>\<open>None\<close> is printed by its name.\<close>

definition format_group :: "string option \<Rightarrow> string" where
  "format_group g = (case g of Some s \<Rightarrow> s | None \<Rightarrow> ''None'')"

definition determine_reference_type :: "string \<Rightarrow> string" where
  "determine_reference_type ref_text =
     (let ref_lower = lower ref_text in
      if list_ex (contains ref_lower) [''journal'', ''vol.'', ''volume'', ''issue''] then ''journal''
      else if list_ex (contains ref_lower) [''proceedings'', ''conference'', ''symposium'']
        then ''conference''
      else if list_ex (contains ref_lower) [''book'', ''publisher'', ''press''] then ''book''
      else if list_ex (contains ref_lower) [''http://'', ''https://'', ''www.''] then ''website''
      else if contains ref_lower ''thesis'' \<or> contains ref_lower ''dissertation'' then ''thesis''
      else ''unknown'')"

text \<open>\<^verbatim>\<open>match.group(1)\<close> of a search, when there is a match.\<close>

definition search_group1 :: "flags \<Rightarrow> re \<Rightarrow> string \<Rightarrow> string option" where
  "search_group1 f r s =
     (case re_search f r s of None \<Rightarrow> None
      | Some (pre, caps, prev', post) \<Rightarrow> Some (group_text (group caps 1)))"

definition extract_additional_metadata ::
  "extracted_reference \<Rightarrow> string \<Rightarrow> extracted_reference" where
  "extract_additional_metadata reference ref_text =
     (let reference = (case search_group1 IGNORECASE doi_pattern ref_text of
                         Some g \<Rightarrow> reference\<lparr>doi := g\<rparr> | None \<Rightarrow> reference);
          reference = (case search_group1 no_flags url_pattern ref_text of
                         Some g \<Rightarrow> reference\<lparr>url := g\<rparr> | None \<Rightarrow> reference);
          reference = (case search_group1 IGNORECASE isbn_pattern ref_text of
                         Some g \<Rightarrow> reference\<lparr>isbn := g\<rparr> | None \<Rightarrow> reference);
          reference = (case search_group1 IGNORECASE volume_pattern ref_text of
                         Some g \<Rightarrow> reference\<lparr>volume := g\<rparr> | None \<Rightarrow> reference);
          reference = (case search_group1 IGNORECASE issue_pattern ref_text of
                         Some g \<Rightarrow> reference\<lparr>issue := g\<rparr> | None \<Rightarrow> reference);
          reference = (case search_group1 IGNORECASE pages_pattern ref_text of
                         Some g \<Rightarrow> reference\<lparr>pages := g\<rparr> | None \<Rightarrow> reference)
      in reference\<lparr>reference_type := determine_reference_type ref_text\<rparr>)"

definition create_reference_from_match ::
  "string option list \<Rightarrow> string \<Rightarrow> int \<Rightarrow> string \<Rightarrow> extracted_reference" where
  "create_reference_from_match gs ref_text ref_number style =
     (let reference = ExtractedReference\<lparr>reference_number := Some ref_number,
            full_text := ref_text, citation_style := style, confidence_score := 0.8\<rparr>;
          reference =
            (if style = ''apa'' \<and> length gs \<ge> 3 then
               (let reference = reference\<lparr>
                      authors := [strip (group_text (gs ! 0))],
                      year := (if isdigit (group_text (gs ! 1))
                               then Some (int_of_digits (group_text (gs ! 1))) else None),
                      title := strip (group_text (gs ! 2))\<rparr>
                in if length gs > 3 then reference\<lparr>venue := strip (group_text (gs ! 3))\<rparr>
                   else reference)
             else if style = ''ieee'' \<and> length gs \<ge> 4 then
               (if isdigit (group_text (gs ! 0)) then
                  reference\<lparr>reference_number := Some (int_of_digits (group_text (gs ! 0))),
                            authors := [strip (group_text (gs ! 1))],
                            title := strip (group_text (gs ! 2)),
                            venue := strip (group_text (gs ! 3))\<rparr>
                else reference)
             else reference)
      in extract_additional_metadata reference ref_text)"

text \<open>The two loops of \<^verbatim>\<open>_parse_single_reference\<close>: the patterns of one style in their order,
  the styles in their order; the first pattern found in the text ends both.\<close>

fun try_patterns :: "re list \<Rightarrow> string \<Rightarrow> (re \<times> captures) option" where
  "try_patterns [] ref_text = None"
| "try_patterns (pattern # patterns) ref_text =
     (case re_search no_flags pattern ref_text of
        Some (pre, caps, prev', post) \<Rightarrow> Some (pattern, caps)
      | None \<Rightarrow> try_patterns patterns ref_text)"

fun try_styles :: "(string \<times> re list) list \<Rightarrow> string \<Rightarrow> (string \<times> re \<times> captures) option" where
  "try_styles [] ref_text = None"
| "try_styles ((style, patterns) # rest) ref_text =
     (case try_patterns patterns ref_text of
        Some (pattern, caps) \<Rightarrow> Some (style, pattern, caps)
      | None \<Rightarrow> try_styles rest ref_text)"

definition basic_reference :: "string \<Rightarrow> int \<Rightarrow> extracted_reference" where
  "basic_reference ref_text ref_number =
     ExtractedReference\<lparr>reference_number := Some ref_number, full_text := ref_text,
       confidence_score := 0.3,
       extraction_notes := ''Pattern matching failed, basic extraction only''\<rparr>"

definition parse_single_reference :: "string \<Rightarrow> int \<Rightarrow> extracted_reference" where
  "parse_single_reference ref_text0 ref_number =
     (let ref_text = strip ref_text0 in
      case try_styles citation_patterns ref_text of
        Some (style, pattern, caps) \<Rightarrow>
          create_reference_from_match (groups (ngroups pattern) caps) ref_text ref_number style
      | None \<Rightarrow> basic_reference ref_text ref_number)"

text \<open>\<^verbatim>\<open>_is_reference_start\<close>.\<close>

definition is_reference_start :: "string \<Rightarrow> bool" where
  "is_reference_start line = list_ex (\<lambda>pattern. re_match no_flags pattern line \<noteq> None)
     reference_start_patterns"

text \<open>\<^verbatim>\<open>_split_into_references\<close>. The first strategy reads the list that \<^verbatim>\<open>re.split\<close> returns
  at the indices 1, 3, 5 and so on, as long as the index after it exists; \<open>bracket_entries\<close> is
  this loop on the list without its first element. The second strategy is a loop over the
  lines with the references found so far and the current reference as its state.\<close>

fun bracket_entries :: "string option list \<Rightarrow> string list" where
  "bracket_entries (ref_number # part # parts) =
     (let ref_text = strip (group_text part)
      in (if ref_text \<noteq> [] then [''['' @ format_group ref_number @ ''] '' @ ref_text] else [])
         @ bracket_entries parts)"
| "bracket_entries parts = []"

definition merge_line :: "string list \<times> string \<Rightarrow> string \<Rightarrow> string list \<times> string" where
  "merge_line st line0 =
     (case st of (references, current_ref) \<Rightarrow>
        (let line = strip line0 in
         if line = [] then
           (if current_ref \<noteq> [] then (references @ [current_ref], []) else (references, current_ref))
         else if is_reference_start line then
           ((if current_ref \<noteq> [] then references @ [current_ref] else references), line)
         else
           (references, (if current_ref \<noteq> [] then current_ref @ '' '' @ line else line))))"

definition split_into_references :: "string \<Rightarrow> string list" where
  "split_into_references t =
     (if re_search no_flags numbered_pattern t \<noteq> None
      then bracket_entries (tl (re_split no_flags 1 numbered_pattern t))
      else (case foldl merge_line ([], []) (split_lines t) of
              (references, current_ref) \<Rightarrow>
                if current_ref \<noteq> [] then references @ [current_ref] else references))"

text \<open>\<^verbatim>\<open>_parse_references_section\<close>; an object of the dataclass is always true, so every parsed
  reference is appended.\<close>

definition parse_references_section :: "string \<Rightarrow> extracted_reference list" where
  "parse_references_section references_text =
     concat (map (\<lambda>(i, ref_text).
                    if length (strip ref_text) < 20 then []
                    else [parse_single_reference ref_text (int i + 1)])
                 (enumerate 0 (split_into_references references_text)))"

text \<open>\<^verbatim>\<open>_find_references_section\<close>: the first header pattern found in the text decides; the
  section runs up to the match of the first end pattern found after it.\<close>

fun find_end :: "re list \<Rightarrow> string \<Rightarrow> string" where
  "find_end [] t = t"
| "find_end (end_pattern # rest) t =
     (case re_search IGNORECASE end_pattern t of
        Some (pre, caps, prev', post) \<Rightarrow> pre
      | None \<Rightarrow> find_end rest t)"

fun find_section :: "re list \<Rightarrow> string \<Rightarrow> string option" where
  "find_section [] t = None"
| "find_section (pattern # rest) t =
     (case re_search IGNORECASE pattern t of
        Some (pre, caps, prev', post) \<Rightarrow> Some (strip (find_end end_patterns post))
      | None \<Rightarrow> find_section rest t)"

definition find_references_section :: "string \<Rightarrow> string option" where
  "find_references_section t = find_section section_patterns t"

text \<open>\<^verbatim>\<open>_find_numbered_references\<close>.\<close>

definition find_numbered_references :: "string \<Rightarrow> extracted_reference list" where
  "find_numbered_references t =
     concat (map (\<lambda>caps.
                    let ref_number = int_of_digits (group_text (group caps 1));
                        ref_text = strip (group_text (group caps 2))
                    in if length ref_text > 20 then [parse_single_reference ref_text ref_number]
                       else [])
                 (re_finditer MULTILINE numbered_reference_pattern t))"


subsection \<open>Deduplication\<close>

definition calculate_string_similarity :: "string \<Rightarrow> string \<Rightarrow> real" where
  "calculate_string_similarity str1 str2 =
     (if str1 = [] \<or> str2 = [] then 0
      else let str1_lower = lower str1; str2_lower = lower str2 in
        if str1_lower = str2_lower then 1
        else let words1 = set (split str1_lower);
                 words2 = set (split str2_lower);
                 intersection = words1 \<inter> words2;
                 union = words1 \<union> words2
             in if union = {} then 0 else real (card intersection) / real (card union))"

definition are_references_similar :: "extracted_reference \<Rightarrow> extracted_reference \<Rightarrow> bool" where
  "are_references_similar ref1 ref2 =
     (if title ref1 \<noteq> [] \<and> title ref2 \<noteq> []
         \<and> calculate_string_similarity (title ref1) (title ref2) > 0.8
      then True
      else calculate_string_similarity (full_text ref1) (full_text ref2) > 0.9)"

text \<open>One round of the outer loop of \<^verbatim>\<open>_deduplicate_references\<close>. The inner loop stops at the
  first accepted reference that is similar to the incoming one; \<^verbatim>\<open>list.remove\<close> deletes the
  first element equal to its argument.\<close>

definition dedup_step :: "extracted_reference list \<Rightarrow> extracted_reference \<Rightarrow> extracted_reference list" where
  "dedup_step unique_references ref =
     (case find (\<lambda>existing_ref. are_references_similar ref existing_ref) unique_references of
        Some existing_ref \<Rightarrow>
          if confidence_score ref > confidence_score existing_ref
          then remove1 existing_ref unique_references @ [ref]
          else unique_references
      | None \<Rightarrow> unique_references @ [ref])"

definition deduplicate_references :: "extracted_reference list \<Rightarrow> extracted_reference list" where
  "deduplicate_references references = foldl dedup_step [] references"

subsection \<open>Cleaning and scoring\<close>

definition clean_reference_text :: "string \<Rightarrow> string" where
  "clean_reference_text t =
     (if t = [] then []
      else strip_by (\<lambda>c. c \<in> set '' .,;:'') (re_sub no_flags (Plus space) '' '' t))"

text \<open>The truth value of an optional integer: \<^verbatim>\<open>None\<close> and \<^verbatim>\<open>0\<close> are false.\<close>

definition truthy :: "int option \<Rightarrow> bool" where
  "truthy y = (case y of None \<Rightarrow> False | Some n \<Rightarrow> n \<noteq> 0)"

definition calculate_reference_completeness :: "extracted_reference \<Rightarrow> real" where
  "calculate_reference_completeness ref =
     (let score = 0;
          score = (if authors ref \<noteq> [] then score + 0.3 else score);
          score = (if title ref \<noteq> [] then score + 0.3 else score);
          score = (if truthy (year ref) then score + 0.2 else score);
          score = (if venue ref \<noteq> [] then score + 0.2 else score);
          optional_fields = [doi ref, url ref, volume ref, issue ref, pages ref];
          filled_optional = length (filter (\<lambda>field. field \<noteq> []) optional_fields);
          score = score + real filled_optional / real (length optional_fields) * 0.2
      in min 1 score)"

text \<open>The body of the loop of \<^verbatim>\<open>_enhance_reference_quality\<close>.\<close>

definition enhance_reference :: "extracted_reference \<Rightarrow> extracted_reference" where
  "enhance_reference ref0 =
     (let ref = ref0\<lparr>full_text := clean_reference_text (full_text ref0)\<rparr>;
          ref = ref\<lparr>title := clean_reference_text (title ref)\<rparr>;
          ref = ref\<lparr>venue := clean_reference_text (venue ref)\<rparr>;
          ref = (if truthy (year ref) \<and> (the (year ref) < 1900 \<or> the (year ref) > 2030)
                 then ref\<lparr>year := None,
                          extraction_notes := extraction_notes ref @ ''Invalid year detected. ''\<rparr>
                 else ref)
      in ref\<lparr>confidence_score := calculate_reference_completeness ref\<rparr>)"

definition enhance_reference_quality :: "extracted_reference list \<Rightarrow> extracted_reference list" where
  "enhance_reference_quality references = map enhance_reference references"

subsection \<open>The entry points\<close>

definition extract_references_from_text :: "string \<Rightarrow> extracted_reference list" where
  "extract_references_from_text t =
     (let references =
            (case find_references_section t of
               Some references_section \<Rightarrow>
                 if references_section \<noteq> [] then parse_references_section references_section
                 else []
             | None \<Rightarrow> []);
          references = references @ find_numbered_references t;
          references = deduplicate_references references
      in enhance_reference_quality references)"

text \<open>
  \<^verbatim>\<open>extract_references_from_pdf\<close> from the extraction of the text on: an exception raised in
  its body is caught and reported in a result of status \<^verbatim>\<open>error\<close> (here \<open>Inl\<close> with the
  exception), a run without exception ends in a result of status \<^verbatim>\<open>success\<close> with the filtered
  references (here \<open>Inr\<close>). The checks of the file, the storage of the references and the
  statistics are left out.
\<close>

definition min_confidence_threshold :: real where
  "min_confidence_threshold = 0.3"

definition extract_references_from_pdf :: "pdf \<Rightarrow> py_error + extracted_reference list" where
  "extract_references_from_pdf d =
     (case extract_text_from_pdf d of
        Inl e \<Rightarrow> Inl e
      | Inr (t, method_used, extraction_quality) \<Rightarrow>
          if t = [] then Inl (ValueError ''No text could be extracted from the PDF'')
          else let references = extract_references_from_text t
               in Inr (filter (\<lambda>ref. confidence_score ref \<ge> min_confidence_threshold) references))"


section \<open>Notions of the specification\<close>

text \<open>The Jaccard similarity of two word sets, and the set of the lower-cased words of a
  string.\<close>

definition word_set :: "string \<Rightarrow> string set" where
  "word_set s = set (split (lower s))"

definition jaccard :: "string set \<Rightarrow> string set \<Rightarrow> real" where
  "jaccard A B = real (card (A \<inter> B)) / real (card (A \<union> B))"

text \<open>The bracket \<open>[P]\<close> of the scoring formula: 1 if \<open>P\<close> holds and 0 otherwise.\<close>

definition indicator :: "bool \<Rightarrow> real" where
  "indicator P = (if P then 1 else 0)"

definition filled_optional :: "extracted_reference \<Rightarrow> nat" where
  "filled_optional ref =
     (if doi ref \<noteq> [] then 1 else 0) + (if url ref \<noteq> [] then 1 else 0)
     + (if volume ref \<noteq> [] then 1 else 0) + (if issue ref \<noteq> [] then 1 else 0)
     + (if pages ref \<noteq> [] then 1 else 0)"

definition completeness_formula :: "extracted_reference \<Rightarrow> real" where
  "completeness_formula ref =
     min 1 (0.3 * indicator (authors ref \<noteq> []) + 0.3 * indicator (title ref \<noteq> [])
            + 0.2 * indicator (year ref \<noteq> None) + 0.2 * indicator (venue ref \<noteq> [])
            + 0.2 * (real (filled_optional ref) / 5))"

text \<open>The number of distinct indicators that occur in a text without regard to case, and the
  quality formula of the Arbiter.\<close>

definition indicator_count :: "string \<Rightarrow> nat" where
  "indicator_count t = card {i \<in> set academic_indicators. contains (lower t) (lower i)}"

definition quality_formula :: "string \<Rightarrow> real" where
  "quality_formula t =
     min 1 (0.3 * (real (length t) / 10000) + 0.3 * (real (length (split t)) / 2000)
            + 0.4 * (real (indicator_count t) / real (card (set academic_indicators))))"

text \<open>A bracket marker \<^verbatim>\<open>[<digits>]\<close>, a text that starts with a marker, a text in which no
  marker starts, and a document made of a text before the first marker and of markers that
  are each followed by a text.\<close>

definition bracket_marker :: "string \<Rightarrow> string" where
  "bracket_marker d = ''['' @ d @ '']''"

definition starts_with_marker :: "string \<Rightarrow> bool" where
  "starts_with_marker s = (\<exists>d rest. isdigit d \<and> s = bracket_marker d @ rest)"

definition marker_free :: "string \<Rightarrow> bool" where
  "marker_free s = (\<forall>v. suffix v s \<longrightarrow> \<not> starts_with_marker v)"

definition bracket_document :: "string \<Rightarrow> (string \<times> string) list \<Rightarrow> string" where
  "bracket_document before_first entries =
     before_first @ concat (map (\<lambda>(d, t). bracket_marker d @ t) entries)"

text \<open>A string without white space at its ends, as \<^verbatim>\<open>str.strip\<close> returns it; the parser
  strips the full text and the title of every reference that it creates.\<close>

definition stripped :: "string \<Rightarrow> bool" where
  "stripped s = (strip s = s)"

text \<open>
  Four lines of a reference list for the examples of deduplication. They differ in one word
  each from \<open>lee_c_text\<close>: the first in the year, the second in the initial, the last in the
  title. The references are the records that \<^verbatim>\<open>_parse_single_reference\<close> creates for them.
\<close>

definition lee_a_text :: string where
  "lee_a_text = ''Lee, K. (2021a). Alpha. Journal of new ways to map old text in big data sets using deep nets, 5(3), 1-9.''"

definition lee_b_text :: string where
  "lee_b_text = ''Lee, K (2021). Alpha. Journal of new ways to map old text in big data sets using deep nets, 5(3), 1-9.''"

definition lee_c_text :: string where
  "lee_c_text = ''Lee, K. (2021). Alpha. Journal of new ways to map old text in big data sets using deep nets, 5(3), 1-9.''"

definition lee_d_text :: string where
  "lee_d_text = ''Lee, K. (2021). Beta. Journal of new ways to map old text in big data sets using deep nets, 5(3), 1-9.''"

definition lee_a :: extracted_reference where
  "lee_a = parse_single_reference lee_a_text 1"

definition lee_b :: extracted_reference where
  "lee_b = parse_single_reference lee_b_text 2"

definition lee_c :: extracted_reference where
  "lee_c = parse_single_reference lee_c_text 3"

definition lee_d :: extracted_reference where
  "lee_d = parse_single_reference lee_d_text 4"

text \<open>A pattern that matches at no position of a text.\<close>

definition matches_nowhere :: "flags \<Rightarrow> re \<Rightarrow> string \<Rightarrow> bool" where
  "matches_nowhere f r s = (\<forall>prev s' caps. suffix s' s \<longrightarrow> ms f r (prev, s', caps) = [])"

text \<open>The texts of the examples: the reference of Example 2 of the specification, alone and
  with a bracket number; a reference in APA form with the year 0000, alone and with a bracket
  number; a book in MLA form; and a candidate that no style pattern matches.\<close>

definition johnson_reference :: string where
  "johnson_reference = ''Johnson, M., & Brown, K. (2022). Data Science Fundamentals. Academic Press.''"

definition johnson_document :: string where
  "johnson_document = ''[2] Johnson, M., & Brown, K. (2022). Data Science Fundamentals. Academic Press.''"

definition year0_reference :: string where
  "year0_reference = ''Smith, J. (0000). Early notes. History Journal, 5(3), 1-9.''"

definition year0_document :: string where
  "year0_document = ''[1] Smith, J. (0000). Early notes. History Journal, 5(3), 1-9.''"

definition mla_reference :: string where
  "mla_reference = ''Smith, John. Some Book Title. Big Publisher, 2020.''"

definition report_reference :: string where
  "report_reference = ''Technical report doi:10.1000/182 volume 12''"

section \<open>Properties of the matcher\<close>

text \<open>A match never ends before the position at which it started: the text that is left is a
  suffix of the text at the start.\<close>

lemma ms_suffix_state:
  "st' \<in> set (ms f r st) \<Longrightarrow> suffix (fst (snd st')) (fst (snd st))"
proof (induction f r st arbitrary: st' rule: ms.induct)
  case (1 f items prev s caps)
  then show ?case by (auto split: list.splits if_splits simp: suffix_Cons)
next
  case (2 f items prev s caps)
  then show ?case by (auto split: list.splits if_splits simp: suffix_Cons)
next
  case (3 f st)
  then show ?case by simp
next
  case (4 f a b st)
  from "4.prems" obtain x where x: "x \<in> set (ms f a st)" and st': "st' \<in> set (ms f b x)"
    by auto
  from "4.IH"(1)[OF x] "4.IH"(2)[OF x st'] show ?case
    by (rule suffix_order.trans[rotated])
next
  case (5 f a b st)
  from "5.prems" consider (a) "st' \<in> set (ms f a st)" | (b) "st' \<in> set (ms f b st)"
    by auto
  then show ?case
  proof cases
    case a
    then show ?thesis by (rule "5.IH"(1))
  next
    case b
    then show ?thesis by (rule "5.IH"(2))
  qed
next
  case (6 f r st)
  from "6.prems" consider "st' = st"
    | x where "x \<in> set (filter (\<lambda>st'. length (fst (snd st')) < length (fst (snd st))) (ms f r st))"
        "st' \<in> set (ms f (Star r) x)"
    by (subst (asm) ms.simps) auto
  then show ?case
  proof cases
    case 1
    then show ?thesis by simp
  next
    case 2
    from 2(1) have "x \<in> set (ms f r st)" by simp
    from "6.IH"(1)[OF this] "6.IH"(2)[OF 2(1) 2(2)] show ?thesis
      by (rule suffix_order.trans[rotated])
  qed
next
  case (7 f r st)
  from "7.prems" consider "st' = st"
    | x where "x \<in> set (filter (\<lambda>st'. length (fst (snd st')) < length (fst (snd st))) (ms f r st))"
        "st' \<in> set (ms f (LStar r) x)"
    by (subst (asm) ms.simps) auto
  then show ?case
  proof cases
    case 1
    then show ?thesis by simp
  next
    case 2
    from 2(1) have "x \<in> set (ms f r st)" by simp
    from "7.IH"(1)[OF this] "7.IH"(2)[OF 2(1) 2(2)] show ?thesis
      by (rule suffix_order.trans[rotated])
  qed
next
  case (8 f n r prev s caps)
  then show ?case by auto
next
  case (9 f r prev s caps)
  then show ?case by (auto split: list.splits)
next
  case (10 f prev s caps)
  then show ?case by (auto split: if_splits)
next
  case (11 f prev s caps)
  then show ?case by (auto split: if_splits)
qed

lemma ms_suffix: "(p', s', c') \<in> set (ms f r (p, s, c)) \<Longrightarrow> suffix s' s"
  using ms_suffix_state[of "(p', s', c')" f r "(p, s, c)"] by simp

section \<open>The text-extraction arbiter\<close>

lemma distinct_academic_indicators: "distinct academic_indicators"
  by (simp add: academic_indicators_def)

lemma indicator_count_filter:
  "length (filter (\<lambda>i. contains (lower t) (lower i)) academic_indicators) = indicator_count t"
proof -
  have "{i \<in> set academic_indicators. contains (lower t) (lower i)}
        = {i. contains (lower t) (lower i)} \<inter> set academic_indicators"
    by auto
  then show ?thesis
    unfolding indicator_count_def
    by (simp add: distinct_length_filter[OF distinct_academic_indicators])
qed

lemma indicator_count_Nil: "indicator_count [] = 0"
proof -
  have "{i \<in> set academic_indicators. contains (lower []) (lower i)} = {}"
    by (auto simp: lower_def academic_indicators_def)
  then show ?thesis by (simp add: indicator_count_def)
qed

lemma calculate_text_quality_formula: "calculate_text_quality t = quality_formula t"
proof (cases "t = []")
  case True
  then show ?thesis
    by (simp add: calculate_text_quality_def quality_formula_def indicator_count_Nil split_def)
next
  case False
  have card: "card (set academic_indicators) = length academic_indicators"
    by (rule distinct_card[OF distinct_academic_indicators])
  from False show ?thesis
    by (simp add: calculate_text_quality_def quality_formula_def Let_def indicator_count_filter card
        algebra_simps)
qed

lemma quality_formula_nonneg: "0 \<le> quality_formula t"
  by (simp add: quality_formula_def)

lemma select_loop_spec:
  assumes "\<forall>r \<in> snd ` set rs. get_success r \<longrightarrow> quality_score r \<noteq> None"
    and "quality_score best \<noteq> None"
  shows "(select_loop best rs = Inr best
            \<and> (\<forall>r \<in> snd ` set rs. get_success r \<longrightarrow> get_quality_score r \<le> get_quality_score best))
       \<or> (\<exists>xs m b ys. rs = xs @ (m, b) # ys \<and> select_loop best rs = Inr b \<and> get_success b
            \<and> get_quality_score best < get_quality_score b
            \<and> (\<forall>r \<in> snd ` set xs. get_success r \<longrightarrow> get_quality_score r < get_quality_score b)
            \<and> (\<forall>r \<in> snd ` set ys. get_success r \<longrightarrow> get_quality_score r \<le> get_quality_score b))"
    (is "?keep best rs \<or> ?pick best rs")
  using assms
proof (induction rs arbitrary: best)
  case Nil
  then show ?case by simp
next
  case (Cons x rs)
  obtain m r where x: "x = (m, r)" by (cases x)
  from Cons.prems(2) obtain qb where qb: "quality_score best = Some qb" by auto
  then have gqb: "get_quality_score best = qb" by (simp add: get_quality_score_def)
  from Cons.prems(1) have rest: "\<forall>r \<in> snd ` set rs. get_success r \<longrightarrow> quality_score r \<noteq> None"
    by simp
  show ?case
  proof (cases "get_success r \<and> get_quality_score r > qb")
    case True
    with Cons.prems(1) x have rq: "quality_score r \<noteq> None" by simp
    from True qb x have step: "select_loop best (x # rs) = select_loop r rs" by simp
    from Cons.IH[OF rest rq] show ?thesis
    proof
      assume a: "?keep r rs"
      have "?pick best (x # rs)"
        by (rule exI[of _ "[]"], rule exI[of _ m], rule exI[of _ r], rule exI[of _ rs])
           (use x step a True gqb in simp)
      then show ?thesis ..
    next
      assume "?pick r rs"
      then show ?thesis
      proof (elim exE conjE)
        fix xs m' b ys
        assume b: "rs = xs @ (m', b) # ys" "select_loop r rs = Inr b" "get_success b"
          "get_quality_score r < get_quality_score b"
          "\<forall>r' \<in> snd ` set xs. get_success r' \<longrightarrow> get_quality_score r' < get_quality_score b"
          "\<forall>r' \<in> snd ` set ys. get_success r' \<longrightarrow> get_quality_score r' \<le> get_quality_score b"
        have lt: "get_quality_score best < get_quality_score b" using True gqb b(4) by simp
        have "?pick best (x # rs)"
          by (rule exI[of _ "x # xs"], rule exI[of _ m'], rule exI[of _ b], rule exI[of _ ys])
             (use x step b lt in simp)
        then show ?thesis ..
      qed
    qed
  next
    case False
    with qb x have step: "select_loop best (x # rs) = select_loop best rs"
      by (auto simp: not_less)
    from False gqb have xle: "get_success r \<longrightarrow> get_quality_score r \<le> get_quality_score best"
      by auto
    from Cons.IH[OF rest Cons.prems(2)] show ?thesis
    proof
      assume "?keep best rs"
      with step xle x have "?keep best (x # rs)" by simp
      then show ?thesis ..
    next
      assume "?pick best rs"
      then show ?thesis
      proof (elim exE conjE)
        fix xs m' b ys
        assume b: "rs = xs @ (m', b) # ys" "select_loop best rs = Inr b" "get_success b"
          "get_quality_score best < get_quality_score b"
          "\<forall>r' \<in> snd ` set xs. get_success r' \<longrightarrow> get_quality_score r' < get_quality_score b"
          "\<forall>r' \<in> snd ` set ys. get_success r' \<longrightarrow> get_quality_score r' \<le> get_quality_score b"
        have xlt: "get_success r \<longrightarrow> get_quality_score r < get_quality_score b"
          using xle b(4) by auto
        have "?pick best (x # rs)"
          by (rule exI[of _ "x # xs"], rule exI[of _ m'], rule exI[of _ b], rule exI[of _ ys])
             (use x step b xlt in simp)
        then show ?thesis ..
      qed
    qed
  qed
qed



lemma extract_with_ocr_scored:
  "quality_score (extract_with_ocr images) = Some (get_quality_score (extract_with_ocr images))"
  by (cases images) (simp_all add: extract_with_ocr_def Let_def get_quality_score_def)

lemma extraction_results_scored:
  "\<forall>r \<in> snd ` set (extraction_results d). get_success r \<longrightarrow> quality_score r \<noteq> None"
  by (simp add: extraction_results_def extract_with_pdfplumber_def extract_with_pypdf2_def
      extract_with_ocr_scored failed_result_def get_success_def Let_def split: option.splits)




lemma select_best_extraction_results:
  "\<exists>b. select_best_extraction (extraction_results d) = Inr b \<and>
     ((b = initial_best_result
        \<and> (\<forall>r \<in> snd ` set (extraction_results d). get_success r \<longrightarrow> get_quality_score r \<le> 0))
      \<or> (\<exists>xs m ys. extraction_results d = xs @ (m, b) # ys \<and> get_success b
            \<and> 0 < get_quality_score b
            \<and> (\<forall>r \<in> snd ` set xs. get_success r \<longrightarrow> get_quality_score r < get_quality_score b)
            \<and> (\<forall>r \<in> snd ` set ys. get_success r \<longrightarrow> get_quality_score r \<le> get_quality_score b)))"
proof -
  have q0: "quality_score initial_best_result \<noteq> None" "get_quality_score initial_best_result = 0"
    by (simp_all add: initial_best_result_def get_quality_score_def)
  from select_loop_spec[OF extraction_results_scored q0(1), of d] show ?thesis
  proof (elim disjE exE conjE)
    assume "select_loop initial_best_result (extraction_results d) = Inr initial_best_result"
      and "\<forall>r\<in>snd ` set (extraction_results d).
          get_success r \<longrightarrow> get_quality_score r \<le> get_quality_score initial_best_result"
    then show ?thesis
      by (intro exI[of _ initial_best_result]) (simp add: select_best_extraction_def q0(2))
  next
    fix xs m b ys
    assume a: "extraction_results d = xs @ (m, b) # ys"
      "select_loop initial_best_result (extraction_results d) = Inr b" "get_success b"
      "get_quality_score initial_best_result < get_quality_score b"
      "\<forall>r\<in>snd ` set xs. get_success r \<longrightarrow> get_quality_score r < get_quality_score b"
      "\<forall>r\<in>snd ` set ys. get_success r \<longrightarrow> get_quality_score r \<le> get_quality_score b"
    have sel: "select_best_extraction (extraction_results d) = Inr b"
      using a(2) by (simp add: select_best_extraction_def)
    have pos: "0 < get_quality_score b" using a(4) by (simp add: q0(2))
    have "\<exists>xs m ys. extraction_results d = xs @ (m, b) # ys \<and> get_success b
            \<and> 0 < get_quality_score b
            \<and> (\<forall>r \<in> snd ` set xs. get_success r \<longrightarrow> get_quality_score r < get_quality_score b)
            \<and> (\<forall>r \<in> snd ` set ys. get_success r \<longrightarrow> get_quality_score r \<le> get_quality_score b)"
      using a(1,3,5,6) pos by (intro exI conjI)
    with sel show ?thesis by (intro exI[of _ b] conjI disjI2)
  qed
qed

text \<open>
  C7, as amended. The quality score of a text is the formula of the specification; the result
  of the OCR method carries 0.8 times that score and the results of the other two methods the
  score itself; the results are examined in the order pdfplumber, pypdf2, ocr. The selection
  returns the earliest successful result of maximal score if that score is positive; if no
  successful result has a positive score it returns the initial record (method \<^verbatim>\<open>none\<close>, empty
  text, score 0), which is not the result of any method.
\<close>

theorem arbiter_quality_and_selection:
  "calculate_text_quality t = quality_formula t
   \<and> quality_score (extract_with_pdfplumber page_texts)
       = Some (quality_formula (result_text (extract_with_pdfplumber page_texts)))
   \<and> quality_score (extract_with_pypdf2 page_texts)
       = Some (quality_formula (result_text (extract_with_pypdf2 page_texts)))
   \<and> quality_score (extract_with_ocr (Some page_texts))
       = Some (0.8 * quality_formula (result_text (extract_with_ocr (Some page_texts))))
   \<and> map fst (extraction_results d) = [''pdfplumber'', ''pypdf2'', ''ocr'']
   \<and> (\<exists>b. select_best_extraction (extraction_results d) = Inr b \<and>
        ((b = initial_best_result
           \<and> (\<forall>r \<in> snd ` set (extraction_results d). get_success r \<longrightarrow> get_quality_score r \<le> 0))
         \<or> (\<exists>xs m ys. extraction_results d = xs @ (m, b) # ys \<and> get_success b
               \<and> 0 < get_quality_score b
               \<and> (\<forall>r \<in> snd ` set xs. get_success r \<longrightarrow> get_quality_score r < get_quality_score b)
               \<and> (\<forall>r \<in> snd ` set ys. get_success r \<longrightarrow> get_quality_score r \<le> get_quality_score b))))"
proof (intro conjI)
  show "calculate_text_quality t = quality_formula t"
    by (rule calculate_text_quality_formula)
  show "quality_score (extract_with_pdfplumber page_texts)
       = Some (quality_formula (result_text (extract_with_pdfplumber page_texts)))"
    by (simp add: extract_with_pdfplumber_def Let_def calculate_text_quality_formula)
  show "quality_score (extract_with_pypdf2 page_texts)
       = Some (quality_formula (result_text (extract_with_pypdf2 page_texts)))"
    by (simp add: extract_with_pypdf2_def Let_def calculate_text_quality_formula)
  show "quality_score (extract_with_ocr (Some page_texts))
       = Some (0.8 * quality_formula (result_text (extract_with_ocr (Some page_texts))))"
    by (simp add: extract_with_ocr_def Let_def calculate_text_quality_formula)
  show "map fst (extraction_results d) = [''pdfplumber'', ''pypdf2'', ''ocr'']"
    by (simp add: extraction_results_def)
  show "\<exists>b. select_best_extraction (extraction_results d) = Inr b \<and>
        ((b = initial_best_result
           \<and> (\<forall>r \<in> snd ` set (extraction_results d). get_success r \<longrightarrow> get_quality_score r \<le> 0))
         \<or> (\<exists>xs m ys. extraction_results d = xs @ (m, b) # ys \<and> get_success b
               \<and> 0 < get_quality_score b
               \<and> (\<forall>r \<in> snd ` set xs. get_success r \<longrightarrow> get_quality_score r < get_quality_score b)
               \<and> (\<forall>r \<in> snd ` set ys. get_success r \<longrightarrow> get_quality_score r \<le> get_quality_score b)))"
    by (rule select_best_extraction_results)
qed

lemma quality_Abstract: "calculate_text_quality ''Abstract'' = 8117 / 300000"
  by (simp add: calculate_text_quality_def Let_def split_def academic_indicators_def lower_def
      lower_char_def is_upper_def is_space_def)

lemma quality_empty_page: "calculate_text_quality [] = 0"
  by (simp add: calculate_text_quality_def)

lemma strip_Abstract: "strip ''Abstract'' = ''Abstract''"
  by (simp add: strip_def strip_by_def is_space_def)

theorem arbiter_quality_and_selection_witness:
  "calculate_text_quality ''Abstract'' = quality_formula ''Abstract''
   \<and> quality_formula ''Abstract'' = 8117 / 300000
   \<and> select_best_extraction (extraction_results
        \<lparr>pdfplumber_pages = Some [''Abstract''], pypdf2_pages = Some [''Abstract''],
         ocr_pages = Some [''Abstract'']\<rparr>)
       = Inr (extract_with_pdfplumber [''Abstract''])
   \<and> get_quality_score (extract_with_pypdf2 [''Abstract''])
       = get_quality_score (extract_with_pdfplumber [''Abstract''])
   \<and> 0 < get_quality_score (extract_with_pdfplumber [''Abstract''])"
proof -
  have sel: "select_best_extraction (extraction_results
        \<lparr>pdfplumber_pages = Some [''Abstract''], pypdf2_pages = Some [''Abstract''],
         ocr_pages = Some [''Abstract'']\<rparr>)
       = Inr (extract_with_pdfplumber [''Abstract''])"
    by (simp add: extraction_results_def select_best_extraction_def initial_best_result_def
        extract_with_pdfplumber_def extract_with_pypdf2_def extract_with_ocr_def Let_def
        get_success_def get_quality_score_def quality_Abstract strip_Abstract)
  have q: "get_quality_score (extract_with_pypdf2 [''Abstract'']) = 8117 / 300000"
    "get_quality_score (extract_with_pdfplumber [''Abstract'']) = 8117 / 300000"
    by (simp_all add: extract_with_pdfplumber_def extract_with_pypdf2_def Let_def
        get_quality_score_def quality_Abstract)
  show ?thesis
    using arbiter_quality_and_selection[of "''Abstract''" "[''Abstract'']"
      "\<lparr>pdfplumber_pages = Some [''Abstract''], pypdf2_pages = Some [''Abstract''],
         ocr_pages = Some [''Abstract'']\<rparr>"] quality_Abstract sel q
    by simp
qed

text \<open>
  C7 as stated fails where every successful method returns an empty text: for a scanned
  document of one page on which pdfplumber and PyPDF2 find no text and for which the OCR
  raises, two results are successful, but the selection returns the initial record, which is
  none of the results.
\<close>

theorem arbiter_selection_counterexample:
  "get_success (extract_with_pdfplumber [''''])
   \<and> select_best_extraction (extraction_results
        \<lparr>pdfplumber_pages = Some [''''], pypdf2_pages = Some [''''], ocr_pages = None\<rparr>)
       = Inr initial_best_result
   \<and> initial_best_result \<notin> snd ` set (extraction_results
        \<lparr>pdfplumber_pages = Some [''''], pypdf2_pages = Some [''''], ocr_pages = None\<rparr>)"
  by (simp add: extraction_results_def select_best_extraction_def initial_best_result_def
      extract_with_pdfplumber_def extract_with_pypdf2_def extract_with_ocr_def Let_def
      get_success_def get_quality_score_def quality_empty_page)

section \<open>Evaluation of character and string functions\<close>

text \<open>The code points of the printable ASCII characters, of the tabulator and of the line
  feed, for evaluating the character predicates on a closed text.\<close>

lemma of_char_table:
  "of_char (CHR 0x09) = (9::nat)"
  "of_char (CHR 0x0A) = (10::nat)"
  "of_char (CHR '' '') = (32::nat)"
  "of_char (CHR ''!'') = (33::nat)"
  "of_char (CHR 0x22) = (34::nat)"
  "of_char (CHR ''#'') = (35::nat)"
  "of_char (CHR ''$'') = (36::nat)"
  "of_char (CHR ''%'') = (37::nat)"
  "of_char (CHR ''&'') = (38::nat)"
  "of_char (CHR 0x27) = (39::nat)"
  "of_char (CHR ''('') = (40::nat)"
  "of_char (CHR '')'') = (41::nat)"
  "of_char (CHR ''*'') = (42::nat)"
  "of_char (CHR ''+'') = (43::nat)"
  "of_char (CHR '','') = (44::nat)"
  "of_char (CHR ''-'') = (45::nat)"
  "of_char (CHR ''.'') = (46::nat)"
  "of_char (CHR ''/'') = (47::nat)"
  "of_char (CHR ''0'') = (48::nat)"
  "of_char (CHR ''1'') = (49::nat)"
  "of_char (CHR ''2'') = (50::nat)"
  "of_char (CHR ''3'') = (51::nat)"
  "of_char (CHR ''4'') = (52::nat)"
  "of_char (CHR ''5'') = (53::nat)"
  "of_char (CHR ''6'') = (54::nat)"
  "of_char (CHR ''7'') = (55::nat)"
  "of_char (CHR ''8'') = (56::nat)"
  "of_char (CHR ''9'') = (57::nat)"
  "of_char (CHR '':'') = (58::nat)"
  "of_char (CHR '';'') = (59::nat)"
  "of_char (CHR ''<'') = (60::nat)"
  "of_char (CHR ''='') = (61::nat)"
  "of_char (CHR ''>'') = (62::nat)"
  "of_char (CHR ''?'') = (63::nat)"
  "of_char (CHR ''@'') = (64::nat)"
  "of_char (CHR ''A'') = (65::nat)"
  "of_char (CHR ''B'') = (66::nat)"
  "of_char (CHR ''C'') = (67::nat)"
  "of_char (CHR ''D'') = (68::nat)"
  "of_char (CHR ''E'') = (69::nat)"
  "of_char (CHR ''F'') = (70::nat)"
  "of_char (CHR ''G'') = (71::nat)"
  "of_char (CHR ''H'') = (72::nat)"
  "of_char (CHR ''I'') = (73::nat)"
  "of_char (CHR ''J'') = (74::nat)"
  "of_char (CHR ''K'') = (75::nat)"
  "of_char (CHR ''L'') = (76::nat)"
  "of_char (CHR ''M'') = (77::nat)"
  "of_char (CHR ''N'') = (78::nat)"
  "of_char (CHR ''O'') = (79::nat)"
  "of_char (CHR ''P'') = (80::nat)"
  "of_char (CHR ''Q'') = (81::nat)"
  "of_char (CHR ''R'') = (82::nat)"
  "of_char (CHR ''S'') = (83::nat)"
  "of_char (CHR ''T'') = (84::nat)"
  "of_char (CHR ''U'') = (85::nat)"
  "of_char (CHR ''V'') = (86::nat)"
  "of_char (CHR ''W'') = (87::nat)"
  "of_char (CHR ''X'') = (88::nat)"
  "of_char (CHR ''Y'') = (89::nat)"
  "of_char (CHR ''Z'') = (90::nat)"
  "of_char (CHR ''['') = (91::nat)"
  "of_char (CHR 0x5C) = (92::nat)"
  "of_char (CHR '']'') = (93::nat)"
  "of_char (CHR ''^'') = (94::nat)"
  "of_char (CHR ''_'') = (95::nat)"
  "of_char (CHR 0x60) = (96::nat)"
  "of_char (CHR ''a'') = (97::nat)"
  "of_char (CHR ''b'') = (98::nat)"
  "of_char (CHR ''c'') = (99::nat)"
  "of_char (CHR ''d'') = (100::nat)"
  "of_char (CHR ''e'') = (101::nat)"
  "of_char (CHR ''f'') = (102::nat)"
  "of_char (CHR ''g'') = (103::nat)"
  "of_char (CHR ''h'') = (104::nat)"
  "of_char (CHR ''i'') = (105::nat)"
  "of_char (CHR ''j'') = (106::nat)"
  "of_char (CHR ''k'') = (107::nat)"
  "of_char (CHR ''l'') = (108::nat)"
  "of_char (CHR ''m'') = (109::nat)"
  "of_char (CHR ''n'') = (110::nat)"
  "of_char (CHR ''o'') = (111::nat)"
  "of_char (CHR ''p'') = (112::nat)"
  "of_char (CHR ''q'') = (113::nat)"
  "of_char (CHR ''r'') = (114::nat)"
  "of_char (CHR ''s'') = (115::nat)"
  "of_char (CHR ''t'') = (116::nat)"
  "of_char (CHR ''u'') = (117::nat)"
  "of_char (CHR ''v'') = (118::nat)"
  "of_char (CHR ''w'') = (119::nat)"
  "of_char (CHR ''x'') = (120::nat)"
  "of_char (CHR ''y'') = (121::nat)"
  "of_char (CHR ''z'') = (122::nat)"
  "of_char (CHR ''{'') = (123::nat)"
  "of_char (CHR ''|'') = (124::nat)"
  "of_char (CHR ''}'') = (125::nat)"
  "of_char (CHR ''~'') = (126::nat)"
  by simp_all

lemmas string_eval = lower_def lower_char_def is_upper_def is_space_def is_digit_def split_def
  strip_def strip_by_def Let_def of_char_table

section \<open>Deduplication\<close>

subsection \<open>Stripped strings have a word\<close>

lemma lower_char_not_space: "\<not> is_space c \<Longrightarrow> \<not> is_space (lower_char c)"
proof (cases "is_upper c")
  case False
  then show "\<not> is_space c \<Longrightarrow> \<not> is_space (lower_char c)" by (simp add: lower_char_def)
next
  case True
  obtain b0 b1 b2 b3 b4 b5 b6 b7 where c: "c = Char b0 b1 b2 b3 b4 b5 b6 b7" by (cases c)
  from True c have "\<not> is_space (Char b0 b1 b2 b3 b4 True b6 b7)"
    by (cases b0; cases b1; cases b2; cases b3; cases b4; cases b5; cases b6; cases b7)
       (simp_all add: is_upper_def is_space_def)
  with True c show "\<not> is_space (lower_char c)" by (simp add: lower_char_def)
qed

lemma rstrip_by_Cons: "rstrip_by p xs = y # ys \<Longrightarrow> \<exists>xs'. xs = y # xs'"
  by (cases xs) (auto simp: Let_def split: if_splits)

lemma strip_by_head: "strip_by p s = c # cs \<Longrightarrow> \<not> p c"
proof -
  assume "strip_by p s = c # cs"
  then obtain xs' where "dropWhile p s = c # xs'"
    unfolding strip_by_def by (blast dest: rstrip_by_Cons)
  then show ?thesis using hd_dropWhile[of p s] by auto
qed

lemma rstrip_by_idem: "rstrip_by p (rstrip_by p s) = rstrip_by p s"
  by (induction s) (auto simp: Let_def)

lemma strip_by_idem: "strip_by p (strip_by p s) = strip_by p s"
proof (cases "strip_by p s")
  case Nil
  then show ?thesis by (simp add: strip_by_def)
next
  case (Cons c cs)
  then have "\<not> p c" by (rule strip_by_head)
  with Cons have "dropWhile p (strip_by p s) = strip_by p s" by simp
  then have "strip_by p (strip_by p s) = rstrip_by p (strip_by p s)"
    by (simp add: strip_by_def[of p "strip_by p s"])
  then show ?thesis by (simp add: strip_by_def[of p s] rstrip_by_idem)
qed

lemma stripped_strip: "stripped (strip s)"
  by (simp add: stripped_def strip_def strip_by_idem)

lemma stripped_Nil: "stripped []"
  by (simp add: stripped_def strip_def strip_by_def)

lemma split_on_head_nonempty: "\<not> p c \<Longrightarrow> \<exists>w ws. split_on p (c # cs) = (c # w) # ws"
  by (cases "split_on p cs") simp_all

lemma stripped_has_word:
  assumes "stripped s" "s \<noteq> []"
  shows "split (lower s) \<noteq> []"
proof -
  from assms obtain c cs where s: "s = c # cs" by (cases s) auto
  with assms(1) have "strip_by is_space s = c # cs" by (simp add: stripped_def strip_def)
  then have "\<not> is_space c" by (rule strip_by_head)
  then have "\<not> is_space (lower_char c)" by (rule lower_char_not_space)
  then obtain w ws where "split_on is_space (lower_char c # lower cs) = (lower_char c # w) # ws"
    using split_on_head_nonempty by blast
  then show ?thesis by (simp add: split_def lower_def s)
qed

subsection \<open>The similarity of the source and the Jaccard similarity\<close>

lemma similarity_is_jaccard:
  assumes "stripped s1" "stripped s2"
  shows "calculate_string_similarity s1 s2 = jaccard (word_set s1) (word_set s2)"
proof (cases "s1 = [] \<or> s2 = []")
  case True
  then have "word_set s1 = {} \<or> word_set s2 = {}"
    by (auto simp: word_set_def lower_def split_def)
  then have "jaccard (word_set s1) (word_set s2) = 0"
    by (auto simp: jaccard_def)
  with True show ?thesis by (auto simp: calculate_string_similarity_def)
next
  case False
  then have ne: "s1 \<noteq> []" "s2 \<noteq> []" by simp_all
  have w1: "word_set s1 \<noteq> {}" using stripped_has_word[OF assms(1) ne(1)]
    by (simp add: word_set_def)
  have fin: "finite (word_set s1)" "finite (word_set s2)" by (simp_all add: word_set_def)
  show ?thesis
  proof (cases "lower s1 = lower s2")
    case True
    then have "word_set s1 = word_set s2" by (simp add: word_set_def)
    moreover have "card (word_set s1) \<noteq> 0" using w1 fin by simp
    ultimately have "jaccard (word_set s1) (word_set s2) = 1" by (simp add: jaccard_def)
    with True ne show ?thesis by (simp add: calculate_string_similarity_def)
  next
    case False
    with ne w1 show ?thesis
      by (simp add: calculate_string_similarity_def Let_def jaccard_def word_set_def)
  qed
qed

text \<open>The full texts are compared whenever the titles do not decide, also when both titles
  are there.\<close>

lemma similar_by_full_text:
  "calculate_string_similarity (full_text ref1) (full_text ref2) > 0.9 \<Longrightarrow>
     are_references_similar ref1 ref2"
  by (simp add: are_references_similar_def)

lemma calculate_string_similarity_lists:
  "calculate_string_similarity str1 str2 =
     (if str1 = [] \<or> str2 = [] then 0
      else if lower str1 = lower str2 then 1
      else if split (lower str1) = [] \<and> split (lower str2) = [] then 0
      else real (length (remdups (filter (\<lambda>w. w \<in> set (split (lower str2))) (split (lower str1)))))
           / real (length (remdups (split (lower str1) @ split (lower str2)))))"
proof -
  have "set xs \<inter> set ys = set (filter (\<lambda>w. w \<in> set ys) xs)" for xs ys :: "string list"
    by auto
  then have "card (set xs \<inter> set ys) = length (remdups (filter (\<lambda>w. w \<in> set ys) xs))"
    for xs ys :: "string list"
    by (simp only: card_set)
  moreover have "card (set xs \<union> set ys) = length (remdups (xs @ ys))" for xs ys :: "string list"
    by (simp only: card_set[symmetric] set_append)
  ultimately show ?thesis
    by (simp add: calculate_string_similarity_def Let_def)
qed

lemma calculate_string_similarity_commute:
  "calculate_string_similarity str1 str2 = calculate_string_similarity str2 str1"
  by (auto simp: calculate_string_similarity_def Let_def Int_commute Un_commute)

lemma are_references_similar_commute:
  "are_references_similar ref1 ref2 = are_references_similar ref2 ref1"
  by (auto simp: are_references_similar_def calculate_string_similarity_commute)

section \<open>Texts of white space\<close>

lemma nowhere_Cls:
  assumes "\<forall>c \<in> set s. \<not> cls_match f items c"
  shows "matches_nowhere f (Cls items) s"
  unfolding matches_nowhere_def
proof (intro allI impI)
  fix prev s' caps
  assume "suffix s' s"
  then have "set s' \<subseteq> set s" by (rule set_mono_suffix)
  with assms show "ms f (Cls items) (prev, s', caps) = []"
    by (cases s') auto
qed

lemma nowhere_Seq1: "matches_nowhere f a s \<Longrightarrow> matches_nowhere f (Seq a b) s"
  by (simp add: matches_nowhere_def)

lemma nowhere_Seq2:
  assumes "matches_nowhere f b s"
  shows "matches_nowhere f (Seq a b) s"
  unfolding matches_nowhere_def
proof (intro allI impI)
  fix prev s' caps
  assume suf: "suffix s' s"
  have "ms f b st = []" if "st \<in> set (ms f a (prev, s', caps))" for st
  proof -
    obtain p'' s'' c'' where st: "st = (p'', s'', c'')" by (cases st)
    with that have "suffix s'' s'" by (auto dest: ms_suffix)
    then have "suffix s'' s" using suf by (rule suffix_order.trans)
    with assms st show ?thesis by (simp add: matches_nowhere_def)
  qed
  then show "ms f (Seq a b) (prev, s', caps) = []" by simp
qed

lemma nowhere_search_from:
  assumes "matches_nowhere f r s"
  shows "suffix s' s \<Longrightarrow> re_search_from f r prev skipped s' = None"
proof (induction s' arbitrary: prev skipped)
  case Nil
  with assms show ?case by (simp add: matches_nowhere_def)
next
  case (Cons c cs)
  from Cons.prems have "suffix cs s" by (rule suffix_ConsD)
  with Cons.IH have "re_search_from f r (Some c) (c # skipped) cs = None" by simp
  moreover from assms Cons.prems have "ms f r (prev, c # cs, []) = []"
    by (simp add: matches_nowhere_def)
  ultimately show ?case by simp
qed

lemma nowhere_search: "matches_nowhere f r s \<Longrightarrow> re_search f r s = None"
  by (simp add: re_search_def nowhere_search_from)

lemma nowhere_finditer: "matches_nowhere f r s \<Longrightarrow> re_finditer f r s = []"
  by (simp add: re_finditer_def re_scan_def re_scan_from.simps[of f r None "[]" s]
      nowhere_search_from)

lemma space_not_upper: "is_space c \<Longrightarrow> \<not> is_upper c"
  by (auto simp: is_space_def is_upper_def Let_def)

lemma space_no_letter:
  assumes "is_space c" "\<not> is_space (lower_char x)"
  shows "\<not> cls_match f [CChar x] c"
proof -
  from assms(1) have c: "lower_char c = c" by (simp add: lower_char_def space_not_upper)
  have "\<not> is_space x" using assms(2) by (auto simp: lower_char_def space_not_upper split: if_splits)
  with assms c show ?thesis by (auto simp: cls_match_def)
qed

lemma nowhere_ch_blank:
  assumes "list_all is_space s" "\<not> is_space (lower_char x)"
  shows "matches_nowhere f (ch x) s"
  unfolding ch_def using assms by (intro nowhere_Cls) (auto simp: list_all_iff space_no_letter)

lemma nowhere_header_blank:
  assumes "list_all is_space s" "\<not> is_space (lower_char x)"
  shows "matches_nowhere f (Seq newline (Seq (Star space) (Seq (Seq (ch x) r1) r2))) s"
  by (intro nowhere_Seq2 nowhere_Seq1 nowhere_ch_blank assms)

lemma find_references_section_blank:
  assumes "list_all is_space t"
  shows "find_references_section t = None"
proof -
  have letters: "\<not> is_space (lower_char CHR ''r'')" "\<not> is_space (lower_char CHR ''b'')"
    "\<not> is_space (lower_char CHR ''w'')" "\<not> is_space (lower_char CHR ''l'')"
    "\<not> is_space (lower_char CHR ''c'')"
    by (simp_all add: lower_char_def is_upper_def is_space_def)
  show ?thesis
    unfolding find_references_section_def section_patterns_def lit_def
    by (simp add: nowhere_search nowhere_header_blank[OF assms] letters)
qed

lemma find_numbered_references_blank:
  assumes "list_all is_space t"
  shows "find_numbered_references t = []"
proof -
  have "\<not> is_space (lower_char CHR ''['')"
    by (simp add: lower_char_def is_upper_def is_space_def)
  then have "matches_nowhere MULTILINE numbered_reference_pattern t"
    unfolding numbered_reference_pattern_def using assms
    by (simp add: nowhere_Seq1 nowhere_ch_blank)
  then show ?thesis by (simp add: find_numbered_references_def nowhere_finditer)
qed

lemma blank_text_no_references:
  "list_all is_space t \<Longrightarrow> extract_references_from_text t = []"
  by (simp add: extract_references_from_text_def find_references_section_blank
      find_numbered_references_blank deduplicate_references_def enhance_reference_quality_def)

text \<open>
  C9, as amended. For a text that is empty or consists of white space only,
  \<^verbatim>\<open>extract_references_from_text\<close> returns the empty list and raises nothing. When such a text
  is what the extraction from a PDF returns, \<^verbatim>\<open>extract_references_from_pdf\<close> reports an error
  for the empty text, and for a non-empty text of white space it ends with status
  \<^verbatim>\<open>success\<close> and an empty list of references.
\<close>

theorem blank_text_outcome:
  assumes "list_all is_space t"
  shows "extract_references_from_text t = []
    \<and> (extract_text_from_pdf d = Inr (t, method_used, extraction_quality) \<longrightarrow>
         extract_references_from_pdf d =
           (if t = [] then Inl (ValueError ''No text could be extracted from the PDF'')
            else Inr []))"
  using blank_text_no_references[OF assms] by (simp add: extract_references_from_pdf_def)

lemma quality_two_spaces: "calculate_text_quality ''  '' = 3 / 50000"
  by (simp add: calculate_text_quality_def Let_def split_def academic_indicators_def lower_def
      lower_char_def is_upper_def is_space_def)

lemma extract_text_two_spaces:
  "extract_text_from_pdf \<lparr>pdfplumber_pages = Some [''  ''], pypdf2_pages = None, ocr_pages = None\<rparr>
     = Inr (''  '', ''pdfplumber'', 3 / 50000)"
  by (simp add: extract_text_from_pdf_def extraction_results_def select_best_extraction_def
      initial_best_result_def extract_with_pdfplumber_def extract_with_ocr_def failed_result_def
      Let_def get_success_def get_quality_score_def quality_two_spaces)

theorem blank_text_outcome_witness:
  "list_all is_space ''  ''
   \<and> extract_references_from_text ''  '' = []
   \<and> extract_text_from_pdf
        \<lparr>pdfplumber_pages = Some [''  ''], pypdf2_pages = None, ocr_pages = None\<rparr>
       = Inr (''  '', ''pdfplumber'', 3 / 50000)
   \<and> extract_references_from_pdf
        \<lparr>pdfplumber_pages = Some [''  ''], pypdf2_pages = None, ocr_pages = None\<rparr> = Inr []"
proof -
  have blank: "list_all is_space ''  ''" by (simp add: is_space_def)
  show ?thesis
    using blank_text_outcome[OF blank, of
        "\<lparr>pdfplumber_pages = Some [''  ''], pypdf2_pages = None, ocr_pages = None\<rparr>"
        "''pdfplumber''" "3 / 50000"] blank extract_text_two_spaces
    by simp
qed

text \<open>
  C9 as stated fails on a text of two spaces: the entry point for a text returns the empty
  list, and for a PDF whose only page pdfplumber reads as two spaces, while the other methods
  raise, the entry point for a PDF ends with status \<^verbatim>\<open>success\<close> and no reference.
\<close>

theorem blank_text_counterexample:
  "extract_references_from_text ''  '' = []
   \<and> extract_references_from_pdf
        \<lparr>pdfplumber_pages = Some [''  ''], pypdf2_pages = None, ocr_pages = None\<rparr> = Inr []"
proof -
  have blank: "list_all is_space ''  ''" by (simp add: is_space_def)
  from blank_text_no_references[OF blank] extract_text_two_spaces show ?thesis
    by (simp add: extract_references_from_pdf_def)
qed

section \<open>Splitting at bracket markers\<close>

lemma cls_match_digit: "cls_match no_flags [CDigit] c = is_digit c"
  by (simp add: cls_match_def)

lemma cls_match_char: "cls_match no_flags [CChar x] c = (c = x)"
  by (simp add: cls_match_def no_flags_def)

lemma ms_digit_Cons:
  "ms no_flags digit (p, x # xs, c) = (if is_digit x then [(Some x, xs, c)] else [])"
  by (simp add: digit_def cls_match_digit)

lemma ms_digit_Nil: "ms no_flags digit (p, [], c) = []"
  by (simp add: digit_def)

lemma ms_ch_Cons: "ms no_flags (ch y) (p, x # xs, c) = (if x = y then [(Some x, xs, c)] else [])"
  by (simp add: ch_def cls_match_char)

lemma ms_ch_Nil: "ms no_flags (ch y) (p, [], c) = []"
  by (simp add: ch_def)

text \<open>The greedy star over digits first tries to take the whole run of digits.\<close>

lemma star_digit_head:
  assumes "list_all is_digit ds" "s = [] \<or> \<not> is_digit (hd s)"
  shows "\<exists>rest. ms no_flags (Star digit) (p, ds @ s, c)
           = ((if ds = [] then p else Some (last ds)), s, c) # rest"
  using assms
proof (induction ds arbitrary: p)
  case Nil
  then have "ms no_flags digit (p, s, c) = []"
    by (cases s) (auto simp: ms_digit_Cons ms_digit_Nil)
  then show ?case by (simp add: ms.simps(6))
next
  case (Cons x xs)
  from Cons.prems have x: "is_digit x" and xs: "list_all is_digit xs" by simp_all
  from Cons.IH[OF xs Cons.prems(2), of "Some x"] obtain rest where
    rest: "ms no_flags (Star digit) (Some x, xs @ s, c)
             = ((if xs = [] then Some x else Some (last xs)), s, c) # rest"
    by blast
  have "ms no_flags (Star digit) (p, (x # xs) @ s, c)
          = ms no_flags (Star digit) (Some x, xs @ s, c) @ [(p, (x # xs) @ s, c)]"
    using x by (simp add: ms.simps(6)[of no_flags digit "(p, x # xs @ s, c)"] ms_digit_Cons)
  with rest show ?case by simp
qed

text \<open>Whatever the star over digits consumes is a run of digits.\<close>

lemma star_digit_sound:
  "st' \<in> set (ms no_flags (Star digit) (p, s, c)) \<Longrightarrow>
     \<exists>ds. list_all is_digit ds \<and> s = ds @ fst (snd st')"
proof (induction s arbitrary: p)
  case Nil
  then show ?case by (simp add: ms.simps(6) ms_digit_Nil)
next
  case (Cons x xs)
  show ?case
  proof (cases "is_digit x")
    case False
    with Cons.prems have "st' = (p, x # xs, c)"
      by (simp add: ms.simps(6)[of no_flags digit "(p, x # xs, c)"] ms_digit_Cons)
    then show ?thesis by (intro exI[of _ "[]"]) simp
  next
    case True
    with Cons.prems consider "st' = (p, x # xs, c)"
      | "st' \<in> set (ms no_flags (Star digit) (Some x, xs, c))"
      by (auto simp: ms.simps(6)[of no_flags digit "(p, x # xs, c)"] ms_digit_Cons)
    then show ?thesis
    proof cases
      case 1
      then show ?thesis by (intro exI[of _ "[]"]) simp
    next
      case 2
      from Cons.IH[OF 2] obtain ds where "list_all is_digit ds" "xs = ds @ fst (snd st')"
        by blast
      with True show ?thesis by (intro exI[of _ "x # ds"]) simp
    qed
  qed
qed

lemma numbered_pattern_unfold:
  "numbered_pattern = Seq (ch CHR ''['') (Seq (Grp 1 (Seq digit (Star digit))) (ch CHR '']''))"
  by (simp add: numbered_pattern_def Plus_def)

text \<open>At a marker the pattern matches, and its first match is the marker with the digits as
  group 1.\<close>

lemma numbered_pattern_at_marker:
  assumes "isdigit d"
  shows "\<exists>more. ms no_flags numbered_pattern (p, bracket_marker d @ rest, c)
           = (Some CHR '']'', rest, (1, d) # c) # more"
proof -
  from assms obtain x xs where d: "d = x # xs" and x: "is_digit x" and xs: "list_all is_digit xs"
    by (cases d) (auto simp: isdigit_def)
  have nd: "CHR '']'' # rest = [] \<or> \<not> is_digit (hd (CHR '']'' # rest))"
    by (simp add: is_digit_def)
  from star_digit_head[OF xs nd, of "Some x" c] obtain more where
    star: "ms no_flags (Star digit) (Some x, xs @ CHR '']'' # rest, c)
             = (Some (last d), CHR '']'' # rest, c) # more"
    by (auto simp: d)
  have plus: "ms no_flags (Seq digit (Star digit)) (Some CHR ''['', d @ CHR '']'' # rest, c)
                = (Some (last d), CHR '']'' # rest, c) # more"
    using x star by (simp add: d ms_digit_Cons)
  have grp: "ms no_flags (Grp 1 (Seq digit (Star digit))) (Some CHR ''['', d @ CHR '']'' # rest, c)
          = (Some (last d), CHR '']'' # rest, (1, d) # c)
            # map (\<lambda>(prev', s', caps').
                     (prev', s', (1, take (length (d @ CHR '']'' # rest) - length s')
                                          (d @ CHR '']'' # rest)) # caps')) more"
    by (simp add: plus del: ms.simps(4))
  show ?thesis
    unfolding numbered_pattern_unfold bracket_marker_def
    by (simp add: ms_ch_Cons grp del: ms.simps(8) One_nat_def)
qed

text \<open>The pattern matches only at a marker.\<close>

lemma numbered_pattern_only_at_marker:
  assumes "ms no_flags numbered_pattern (p, s, c) \<noteq> []"
  shows "starts_with_marker s"
proof -
  from assms obtain s1 where s: "s = CHR ''['' # s1"
    unfolding numbered_pattern_unfold
    by (cases s) (auto simp: ms_ch_Cons ms_ch_Nil simp del: ms.simps(8) split: if_splits)
  with assms obtain st1 where
    st1: "st1 \<in> set (ms no_flags (Grp 1 (Seq digit (Star digit))) (Some CHR ''['', s1, c))"
    and close: "ms no_flags (ch CHR '']'') st1 \<noteq> []"
    unfolding numbered_pattern_unfold by (auto simp: ms_ch_Cons simp del: ms.simps(8))
  from st1 obtain st0 where
    st0: "st0 \<in> set (ms no_flags (Seq digit (Star digit)) (Some CHR ''['', s1, c))"
    and rest_eq: "fst (snd st1) = fst (snd st0)"
    by (auto simp del: ms.simps(4))
  from st0 obtain x xs where s1: "s1 = x # xs" and x: "is_digit x"
    and star: "st0 \<in> set (ms no_flags (Star digit) (Some x, xs, c))"
    by (cases s1) (auto simp: ms_digit_Cons ms_digit_Nil split: if_splits)
  from star_digit_sound[OF star] obtain ds where ds: "list_all is_digit ds"
    and xs: "xs = ds @ fst (snd st0)"
    by blast
  obtain p1 r1 c1 where st1_eq: "st1 = (p1, r1, c1)" by (cases st1)
  with close obtain rest where r1: "r1 = CHR '']'' # rest"
    by (cases r1) (auto simp: ms_ch_Cons ms_ch_Nil split: if_splits)
  from rest_eq st1_eq r1 xs have "xs = ds @ CHR '']'' # rest" by simp
  with s s1 have "s = bracket_marker (x # ds) @ rest" by (simp add: bracket_marker_def)
  moreover have "isdigit (x # ds)" using x ds by (simp add: isdigit_def)
  ultimately show ?thesis unfolding starts_with_marker_def by blast
qed


lemma marker_free_suffix: "marker_free s \<Longrightarrow> suffix v s \<Longrightarrow> marker_free v"
  unfolding marker_free_def by (blast intro: suffix_order.trans)

lemma marker_free_nowhere: "marker_free s \<Longrightarrow> matches_nowhere no_flags numbered_pattern s"
  unfolding matches_nowhere_def marker_free_def
  by (blast dest: numbered_pattern_only_at_marker)

text \<open>A marker cannot start in a marker-free text and end in the marker that follows it.\<close>

lemma no_marker_across:
  assumes "marker_free u" "u \<noteq> []"
  shows "\<not> starts_with_marker (u @ CHR ''['' # w)"
proof
  assume "starts_with_marker (u @ CHR ''['' # w)"
  then obtain d r where d: "isdigit d" and eq: "u @ CHR ''['' # w = bracket_marker d @ r"
    unfolding starts_with_marker_def by blast
  from assms(2) eq obtain u' where u: "u = CHR ''['' # u'"
    by (cases u) (auto simp: bracket_marker_def)
  with eq have "u' @ CHR ''['' # w = d @ CHR '']'' # r" by (simp add: bracket_marker_def)
  then obtain us where "(u' = d @ us \<and> us @ CHR ''['' # w = CHR '']'' # r)
      \<or> (u' @ us = d \<and> CHR ''['' # w = us @ CHR '']'' # r)"
    by (auto simp: append_eq_append_conv2)
  then show False
  proof
    assume a: "u' = d @ us \<and> us @ CHR ''['' # w = CHR '']'' # r"
    then obtain us' where "us = CHR '']'' # us'" by (cases us) auto
    with a u have "u = bracket_marker d @ us'" by (simp add: bracket_marker_def)
    with d have "starts_with_marker u" unfolding starts_with_marker_def by blast
    with assms(1) show False by (auto simp: marker_free_def)
  next
    assume a: "u' @ us = d \<and> CHR ''['' # w = us @ CHR '']'' # r"
    then obtain us' where "us = CHR ''['' # us'" by (cases us) auto
    with a have "CHR ''['' \<in> set d" by auto
    with d have "is_digit CHR ''[''" by (auto simp: isdigit_def list_all_iff)
    then show False by (simp add: is_digit_def)
  qed
qed

text \<open>The search passes a marker-free text and stops at the marker after it.\<close>

lemma search_to_marker:
  assumes "isdigit d"
  shows "marker_free u \<Longrightarrow>
     re_search_from no_flags numbered_pattern prev skipped (u @ bracket_marker d @ rest)
       = Some (rev skipped @ u, [(1, d)], Some CHR '']'', rest)"
proof (induction u arbitrary: prev skipped)
  case Nil
  from numbered_pattern_at_marker[OF assms, of prev rest "[]"] obtain more where
    "ms no_flags numbered_pattern (prev, bracket_marker d @ rest, [])
       = (Some CHR '']'', rest, [(1, d)]) # more"
    by blast
  moreover have "bracket_marker d @ rest = CHR ''['' # d @ CHR '']'' # rest"
    by (simp add: bracket_marker_def)
  ultimately show ?case by simp
next
  case (Cons x xs)
  have "\<not> starts_with_marker ((x # xs) @ CHR ''['' # d @ CHR '']'' # rest)"
    by (rule no_marker_across[OF Cons.prems]) simp
  then have "ms no_flags numbered_pattern (prev, x # xs @ bracket_marker d @ rest, []) = []"
    using numbered_pattern_only_at_marker[of prev "x # xs @ bracket_marker d @ rest" "[]"]
    by (auto simp: bracket_marker_def)
  moreover have "marker_free xs"
    by (rule marker_free_suffix[OF Cons.prems]) (simp add: suffix_Cons)
  ultimately show ?case using Cons.IH[of "Some x" "x # skipped"] by simp
qed

lemma bracket_document_Cons:
  "bracket_document u ((d, t) # entries) = u @ bracket_marker d @ bracket_document t entries"
  by (simp add: bracket_document_def)

text \<open>The scan of a document of markers and marker-free texts finds the markers in their
  order, each with the text before it, and leaves the text after the last marker.\<close>

lemma scan_bracket_document:
  assumes "\<forall>(d, t) \<in> set entries. isdigit d \<and> marker_free t" "marker_free u"
  shows "re_scan_from no_flags numbered_pattern prev acc (bracket_document u entries)
         = (rev acc @ zip (u # map snd entries) (map (\<lambda>(d, t). [(1, d)]) entries),
            last (u # map snd entries))"
  using assms
proof (induction entries arbitrary: u prev acc)
  case Nil
  from marker_free_nowhere[OF Nil.prems(2)] have
    "re_search_from no_flags numbered_pattern prev [] u = None"
    by (simp add: nowhere_search_from)
  then show ?case
    by (simp add: bracket_document_def re_scan_from.simps[of _ _ prev acc u])
next
  case (Cons e entries)
  obtain d t where e: "e = (d, t)" by (cases e)
  from Cons.prems e have d: "isdigit d" and t: "marker_free t"
    and rest: "\<forall>(d, t) \<in> set entries. isdigit d \<and> marker_free t"
    by simp_all
  have found: "re_search_from no_flags numbered_pattern prev []
           (u @ bracket_marker d @ bracket_document t entries)
         = Some (u, [(1, d)], Some CHR '']'', bracket_document t entries)"
    using search_to_marker[OF d Cons.prems(2), of prev "[]"] by simp
  have shorter: "length (bracket_document t entries)
      < length (u @ bracket_marker d @ bracket_document t entries)"
    by (simp add: bracket_marker_def)
  have "re_scan_from no_flags numbered_pattern prev acc (bracket_document u (e # entries))
      = re_scan_from no_flags numbered_pattern (Some CHR '']'') ((u, [(1, d)]) # acc)
          (bracket_document t entries)"
    unfolding e bracket_document_Cons
    by (subst re_scan_from.simps) (simp add: found shorter del: length_append)
  also have "\<dots> = (rev ((u, [(1, d)]) # acc)
        @ zip (t # map snd entries) (map (\<lambda>(d, t). [(1, d)]) entries),
      last (t # map snd entries))"
    by (rule Cons.IH[OF rest t])
  finally show ?case by (simp add: e)
qed

lemma split_bracket_document:
  assumes "\<forall>(d, t) \<in> set entries. isdigit d \<and> marker_free t" "marker_free u"
  shows "tl (re_split no_flags 1 numbered_pattern (bracket_document u entries))
         = concat (map (\<lambda>(d, t). [Some d, Some t]) entries)"
proof -
  have groups1: "groups (Suc 0) [(Suc 0, d)] = [Some d]" for d :: string
    by (simp add: groups_def group_def)
  have shape: "tl (concat (map (\<lambda>(pre, caps). Some pre # groups 1 caps)
                     (zip (u # map snd entries) (map (\<lambda>(d, t). [(1, d)]) entries)))
                 @ [Some (last (u # map snd entries))])
             = concat (map (\<lambda>(d, t). [Some d, Some t]) entries)" for u :: string
  proof (induction entries arbitrary: u)
    case Nil
    then show ?case by simp
  next
    case (Cons e entries)
    obtain d t where e: "e = (d, t)" by (cases e)
    from Cons.IH[of t] show ?case
      by (cases entries) (auto simp: e groups1)
  qed
  have scan: "re_scan no_flags numbered_pattern (bracket_document u entries)
      = (zip (u # map snd entries) (map (\<lambda>(d, t). [(1, d)]) entries), last (u # map snd entries))"
    unfolding re_scan_def by (simp only: scan_bracket_document[OF assms] rev.simps append_Nil)
  show ?thesis
    unfolding re_split_def scan by (simp only: prod.case shape)
qed

lemma bracket_entries_pairs:
  "bracket_entries (concat (map (\<lambda>(d, t). [Some d, Some t]) entries))
     = concat (map (\<lambda>(d, t). if strip t \<noteq> [] then [''['' @ d @ ''] '' @ strip t] else [])
                   entries)"
  by (induction entries) (auto simp: group_text_def format_group_def Let_def)

lemma no_bracket_marker_free: "CHR ''['' \<notin> set s \<Longrightarrow> marker_free s"
  unfolding marker_free_def starts_with_marker_def bracket_marker_def
  by (auto dest!: set_mono_suffix)

text \<open>
  C8. A document consists of a text before the first marker and of \<open>n \<ge> 1\<close> entries, each a
  marker \<^verbatim>\<open>[<digits>]\<close> followed by a text in which no marker starts and which is not only white
  space. The bracket strategy of \<^verbatim>\<open>_split_into_references\<close> then yields exactly \<open>n\<close> candidates,
  one for each marker in the order of the document: the stripped text between the marker and
  the next one, with the number of the marker in brackets put in front.
\<close>

theorem bracket_split_complete:
  assumes "entries \<noteq> []" "marker_free before_first"
    and "\<forall>(d, t) \<in> set entries. isdigit d \<and> marker_free t \<and> strip t \<noteq> []"
  shows "split_into_references (bracket_document before_first entries)
           = map (\<lambda>(d, t). ''['' @ d @ ''] '' @ strip t) entries
       \<and> length (split_into_references (bracket_document before_first entries)) = length entries"
proof -
  from assms(3) have ok: "\<forall>(d, t) \<in> set entries. isdigit d \<and> marker_free t" by auto
  from assms(1) obtain d t rest where entries: "entries = (d, t) # rest"
    by (cases entries) auto
  with ok have d: "isdigit d" by simp
  have "re_search no_flags numbered_pattern (bracket_document before_first entries) \<noteq> None"
    unfolding entries bracket_document_Cons re_search_def
    by (simp add: search_to_marker[OF d assms(2)])
  then have "split_into_references (bracket_document before_first entries)
      = concat (map (\<lambda>(d, t). if strip t \<noteq> [] then [''['' @ d @ ''] '' @ strip t] else [])
                    entries)"
    by (simp add: split_into_references_def split_bracket_document[OF ok assms(2)]
        bracket_entries_pairs del: One_nat_def)
  also have "\<dots> = map (\<lambda>(d, t). ''['' @ d @ ''] '' @ strip t) entries"
    using assms(3) by (induction entries) auto
  finally show ?thesis by simp
qed

theorem bracket_split_complete_witness:
  "[(''1'', '' Smith, 2020. ''), (''2'', '' Jones, 2021.'')] \<noteq> []
   \<and> marker_free ''References ''
   \<and> isdigit ''1'' \<and> marker_free '' Smith, 2020. '' \<and> strip '' Smith, 2020. '' \<noteq> []
   \<and> isdigit ''2'' \<and> marker_free '' Jones, 2021.'' \<and> strip '' Jones, 2021.'' \<noteq> []
   \<and> bracket_document ''References '' [(''1'', '' Smith, 2020. ''), (''2'', '' Jones, 2021.'')]
       = ''References [1] Smith, 2020. [2] Jones, 2021.''
   \<and> split_into_references ''References [1] Smith, 2020. [2] Jones, 2021.''
       = [''[1] Smith, 2020.'', ''[2] Jones, 2021.'']"
proof -
  have free: "marker_free ''References ''" "marker_free '' Smith, 2020. ''"
    "marker_free '' Jones, 2021.''"
    by (simp_all add: no_bracket_marker_free)
  have strips: "strip '' Smith, 2020. '' = ''Smith, 2020.''" "strip '' Jones, 2021.'' = ''Jones, 2021.''"
    by (simp_all add: strip_def strip_by_def is_space_def)
  have digits: "isdigit ''1''" "isdigit ''2''"
    by (simp_all add: isdigit_def is_digit_def)
  have doc: "bracket_document ''References '' [(''1'', '' Smith, 2020. ''), (''2'', '' Jones, 2021.'')]
       = ''References [1] Smith, 2020. [2] Jones, 2021.''"
    by (simp add: bracket_document_def bracket_marker_def)
  show ?thesis
    using bracket_split_complete[of "[(''1'', '' Smith, 2020. ''), (''2'', '' Jones, 2021.'')]"
        "''References ''"] free strips digits doc
    by simp
qed

end
